theory Spec2Isabelle
  imports Main "HOL-Library.AList"
begin

section \<open>Data model of app.js\<close>

text \<open>
  Timestamps. The program stores dates as ISO strings produced by \<^verbatim>\<open>toISOString()\<close> and
  compares them after \<^verbatim>\<open>new Date(...)\<close>, that is by their millisecond value. A timestamp
  is modelled as that number of milliseconds; \<^verbatim>\<open>null\<close> is \<open>None\<close>. The clock
  (\<^verbatim>\<open>new Date()\<close>, \<^verbatim>\<open>Date.now()\<close>) is an explicit argument \<open>now\<close>: one reading per
  operation, every operation being synchronous.
\<close>

type_synonym timestamp = int

text \<open>
  Strings. A JavaScript string is a sequence of code units and \<^verbatim>\<open>length\<close> counts them; a
  \<open>string\<close> here is a list of characters, one per code unit. The patterns of the
  validators accept ASCII characters only, compared by their codes.
\<close>

text \<open>An entry of \<^verbatim>\<open>CONFIG.VALID_KEYS\<close>: \<^verbatim>\<open>{ code, duration, type }\<close>.\<close>

record keydef =
  code :: string
  duration :: string
  type :: string

text \<open>
  An element of \<^verbatim>\<open>user.keys\<close>: the three fields of the catalog entry and
  \<^verbatim>\<open>game, active, activatedDate, expiryDate\<close>.
\<close>

record key = keydef +
  game :: string
  active :: bool
  activatedDate :: timestamp
  expiryDate :: "timestamp option"

text \<open>The object \<^verbatim>\<open>userData\<close> built by \<^verbatim>\<open>UserManager.create\<close>.\<close>

record user =
  username :: string
  password :: string
  isAdmin :: bool
  keys :: "key list"
  joinDate :: timestamp
  balance :: int
  totalOrders :: int
  lastLogin :: timestamp

section \<open>CONFIG\<close>

definition VALID_KEYS :: "keydef list" where
  "VALID_KEYS =
    [\<lparr>code = ''DEMO-1234-ABCD-5678'', duration = ''1day'', type = ''Trial''\<rparr>,
     \<lparr>code = ''TEST-KEY1-2025-GAME'', duration = ''1week'', type = ''Standard''\<rparr>,
     \<lparr>code = ''FREE-BETA-KEY9-2025'', duration = ''1month'', type = ''Premium''\<rparr>,
     \<lparr>code = ''PREMIUM-2025-ALPHA'', duration = ''lifetime'', type = ''Premium''\<rparr>,
     \<lparr>code = ''SPECIAL-ACCESS-2025'', duration = ''lifetime'', type = ''Premium''\<rparr>,
     \<lparr>code = ''ADMIN-2025-MASTER-KEY'', duration = ''lifetime'', type = ''Admin''\<rparr>]"

definition STORAGE_PREFIX :: string where
  "STORAGE_PREFIX = ''user_''"

definition CURRENT_USER_KEY :: string where
  "CURRENT_USER_KEY = ''currentUser''"

definition MIN_USERNAME_LENGTH :: nat where
  "MIN_USERNAME_LENGTH = 3"

definition MAX_USERNAME_LENGTH :: nat where
  "MAX_USERNAME_LENGTH = 20"

definition MIN_PASSWORD_LENGTH :: nat where
  "MIN_PASSWORD_LENGTH = 6"

text \<open>\<^verbatim>\<open>CONFIG.DURATIONS\<close>: duration name to \<^verbatim>\<open>{ ms, label }\<close>, \<^verbatim>\<open>ms: null\<close> being \<open>None\<close>.\<close>

definition DURATIONS :: "(string \<times> (int option \<times> string)) list" where
  "DURATIONS =
    [(''1day'', (Some (24 * 60 * 60 * 1000), ''1 Day'')),
     (''1week'', (Some (7 * 24 * 60 * 60 * 1000), ''1 Week'')),
     (''1month'', (Some (30 * 24 * 60 * 60 * 1000), ''1 Month'')),
     (''lifetime'', (None, ''Lifetime''))]"

section \<open>Utils\<close>

text \<open>
  \<^verbatim>\<open>isExpired(expiryDate)\<close>: \<^verbatim>\<open>if (!expiryDate) return false; return new Date() > new Date(expiryDate)\<close>.
  An ISO string is never empty, so \<^verbatim>\<open>!expiryDate\<close> is exactly \<^verbatim>\<open>null\<close>.
\<close>

definition isExpired :: "timestamp option \<Rightarrow> timestamp \<Rightarrow> bool" where
  "isExpired expiry now = (case expiry of None \<Rightarrow> False | Some e \<Rightarrow> now > e)"

text \<open>
  \<^verbatim>\<open>calculateExpiryDate(duration)\<close>: \<^verbatim>\<open>null\<close> for \<^verbatim>\<open>'lifetime'\<close>, \<^verbatim>\<open>null\<close> when
  \<^verbatim>\<open>CONFIG.DURATIONS[duration]?.ms\<close> is missing, \<^verbatim>\<open>null\<close> or \<^verbatim>\<open>0\<close> (\<^verbatim>\<open>!ms\<close>), and
  \<^verbatim>\<open>Date.now() + ms\<close> otherwise.
\<close>

definition calculateExpiryDate :: "string \<Rightarrow> timestamp \<Rightarrow> timestamp option" where
  "calculateExpiryDate d now =
    (if d = ''lifetime'' then None
     else case map_of DURATIONS d of
       None \<Rightarrow> None
     | Some (ms, label) \<Rightarrow>
         (case ms of
            None \<Rightarrow> None
          | Some m \<Rightarrow> if m = 0 then None else Some (now + m)))"

section \<open>Storage\<close>

text \<open>
  \<^verbatim>\<open>localStorage\<close> holds JSON text under string keys. The program writes two kinds of value:
  a user object under \<^verbatim>\<open>'user_' + username\<close> and the name of the logged-in user under
  \<^verbatim>\<open>'currentUser'\<close>.
\<close>

datatype json = JUser user | JString string

text \<open>
  The state of \<^verbatim>\<open>localStorage\<close>: its entries in the order of \<^verbatim>\<open>localStorage.key(i)\<close>, and
  whether \<^verbatim>\<open>setItem\<close> throws (quota exceeded, storage disabled). \<open>setCalls\<close> is not data
  of the program: it counts the calls of \<^verbatim>\<open>Storage.set\<close>, so that "no write was performed"
  can be stated.
\<close>

record storage =
  items :: "(string \<times> json) list"
  setItem_throws :: bool
  setCalls :: nat

definition Storage_get :: "string \<Rightarrow> storage \<Rightarrow> json option" where
  "Storage_get k s = map_of (items s) k"

text \<open>\<^verbatim>\<open>Storage.set\<close>: \<^verbatim>\<open>true\<close> after \<^verbatim>\<open>setItem\<close>, \<^verbatim>\<open>false\<close> when it threw.\<close>

definition Storage_set :: "string \<Rightarrow> json \<Rightarrow> storage \<Rightarrow> bool \<times> storage" where
  "Storage_set k v s =
    (if setItem_throws s then (False, s\<lparr>setCalls := Suc (setCalls s)\<rparr>)
     else (True, s\<lparr>items := AList.update k v (items s), setCalls := Suc (setCalls s)\<rparr>))"

text \<open>\<^verbatim>\<open>Storage.remove\<close>: \<^verbatim>\<open>removeItem\<close>, then \<^verbatim>\<open>true\<close>.\<close>

definition Storage_remove :: "string \<Rightarrow> storage \<Rightarrow> bool \<times> storage" where
  "Storage_remove k s = (True, s\<lparr>items := AList.delete k (items s)\<rparr>)"

text \<open>
  \<^verbatim>\<open>Storage.getAllUsers\<close>: the loop over \<^verbatim>\<open>localStorage.key(i)\<close>, keeping the values whose key
  starts with \<^verbatim>\<open>CONFIG.STORAGE_PREFIX\<close>. The program never writes a string under such a key
  (\<^verbatim>\<open>'currentUser'\<close> does not start with \<^verbatim>\<open>'user_'\<close>; the last section proves it of
  every operation); the model skips one.
\<close>

fun getAllUsers_loop :: "(string \<times> json) list \<Rightarrow> user list" where
  "getAllUsers_loop [] = []"
| "getAllUsers_loop ((k, v) # rest) =
    (if take (length STORAGE_PREFIX) k = STORAGE_PREFIX
     then (case v of JUser u \<Rightarrow> u # getAllUsers_loop rest | JString x \<Rightarrow> getAllUsers_loop rest)
     else getAllUsers_loop rest)"

definition Storage_getAllUsers :: "storage \<Rightarrow> user list" where
  "Storage_getAllUsers s = getAllUsers_loop (items s)"

section \<open>Validator\<close>

text \<open>\<^verbatim>\<open>{ valid: false, message }\<close> or \<^verbatim>\<open>{ valid: true [, data] }\<close>.\<close>

datatype 'a validation = Invalid string | Valid 'a

text \<open>
  The regular expressions of the validators, anchored at both ends (\<^verbatim>\<open>^...$\<close>, no flag):
  a literal character, a character class repeated exactly \<open>n\<close> times (\<^verbatim>\<open>[...]{n}\<close>), a
  character class repeated once or more (\<^verbatim>\<open>[...]+\<close>). A class is a list of ranges, a
  single character \<open>c\<close> being the range from \<open>c\<close> to \<open>c\<close>. Characters compare by code.
\<close>

type_synonym char_class = "(char \<times> char) list"

definition in_range :: "char \<times> char \<Rightarrow> char \<Rightarrow> bool" where
  "in_range r c = ((of_char (fst r) :: nat) \<le> of_char c \<and> (of_char c :: nat) \<le> of_char (snd r))"

definition in_class :: "char_class \<Rightarrow> char \<Rightarrow> bool" where
  "in_class cls c = list_ex (\<lambda>r. in_range r c) cls"

datatype atom = Lit char | Rep char_class nat | Plus char_class

fun anchored :: "atom list \<Rightarrow> string \<Rightarrow> bool" where
  "anchored [] s = (s = [])"
| "anchored (Lit c # as) s = (case s of [] \<Rightarrow> False | x # xs \<Rightarrow> x = c \<and> anchored as xs)"
| "anchored (Rep cls n # as) s =
    (n \<le> length s \<and> list_all (in_class cls) (take n s) \<and> anchored as (drop n s))"
| "anchored (Plus cls # as) s =
    list_ex (\<lambda>n. list_all (in_class cls) (take n s) \<and> anchored as (drop n s)) [1..<Suc (length s)]"

text \<open>\<^verbatim>\<open>/^[a-zA-Z0-9_]+$/\<close>\<close>

definition usernamePattern :: "atom list" where
  "usernamePattern =
    [Plus [(CHR ''a'', CHR ''z''), (CHR ''A'', CHR ''Z''), (CHR ''0'', CHR ''9''), (CHR ''_'', CHR ''_'')]]"

text \<open>\<^verbatim>\<open>/^[A-Z0-9]{4}-[A-Z0-9]{4}-[A-Z0-9]{4}-[A-Z0-9]{4}$/\<close>\<close>

definition upper_alnum :: char_class where
  "upper_alnum = [(CHR ''A'', CHR ''Z''), (CHR ''0'', CHR ''9'')]"

definition keyPattern :: "atom list" where
  "keyPattern =
    [Rep upper_alnum 4, Lit CHR ''-'', Rep upper_alnum 4, Lit CHR ''-'',
     Rep upper_alnum 4, Lit CHR ''-'', Rep upper_alnum 4]"

definition Validator_username :: "string \<Rightarrow> unit validation" where
  "Validator_username uname =
    (if uname = [] then Invalid ''Username is required''
     else if length uname < MIN_USERNAME_LENGTH
       then Invalid ''Username must be at least 3 characters''
     else if length uname > MAX_USERNAME_LENGTH
       then Invalid ''Username must be less than 20 characters''
     else if \<not> anchored usernamePattern uname
       then Invalid ''Username can only contain letters, numbers and underscores''
     else Valid ())"

definition Validator_password :: "string \<Rightarrow> unit validation" where
  "Validator_password pw =
    (if pw = [] then Invalid ''Password is required''
     else if length pw < MIN_PASSWORD_LENGTH
       then Invalid ''Password must be at least 6 characters''
     else Valid ())"

text \<open>
  \<^verbatim>\<open>Validator.key\<close>, over a catalog: \<open>Validator_key\<close> is the program's, over
  \<^verbatim>\<open>CONFIG.VALID_KEYS\<close>. \<^verbatim>\<open>Array.prototype.find\<close> returns the first entry that satisfies
  the test, as \<open>find\<close> does.
\<close>

definition Validator_key_in :: "keydef list \<Rightarrow> string \<Rightarrow> keydef validation" where
  "Validator_key_in catalog k =
    (if k = [] then Invalid ''Key is required''
     else if \<not> anchored keyPattern k
       then Invalid ''Invalid key format (use: XXXX-XXXX-XXXX-XXXX)''
     else case find (\<lambda>d. code d = k) catalog of
       None \<Rightarrow> Invalid ''Invalid or expired key''
     | Some keyData \<Rightarrow> Valid keyData)"

definition Validator_key :: "string \<Rightarrow> keydef validation" where
  "Validator_key k = Validator_key_in VALID_KEYS k"

section \<open>UserManager\<close>

definition UserManager_exists :: "string \<Rightarrow> storage \<Rightarrow> bool" where
  "UserManager_exists uname s = (Storage_get (STORAGE_PREFIX @ uname) s \<noteq> None)"

text \<open>
  \<^verbatim>\<open>UserManager.get\<close>: the value under \<^verbatim>\<open>'user_' + username\<close>, which is a user object
  whenever it is present.
\<close>

definition UserManager_get :: "string \<Rightarrow> storage \<Rightarrow> user option" where
  "UserManager_get uname s =
    (case Storage_get (STORAGE_PREFIX @ uname) s of
       Some (JUser u) \<Rightarrow> Some u
     | Some (JString x) \<Rightarrow> None
     | None \<Rightarrow> None)"

text \<open>The object \<^verbatim>\<open>userData\<close> that \<^verbatim>\<open>UserManager.create\<close> builds, then stores.\<close>

definition userData :: "string \<Rightarrow> string \<Rightarrow> keydef \<Rightarrow> timestamp \<Rightarrow> user" where
  "userData uname pw keyData now =
    (let admin = (type keyData = ''Admin'');
         expiry = calculateExpiryDate (duration keyData) now
     in \<lparr>username = uname, password = pw, isAdmin = admin,
          keys = [\<lparr>code = code keyData, duration = duration keyData, type = type keyData,
                   game = ''Reverse'', active = (\<not> isExpired expiry now),
                   activatedDate = now, expiryDate = expiry\<rparr>],
          joinDate = now, balance = 0, totalOrders = 0, lastLogin = now\<rparr>)"

definition UserManager_create ::
  "string \<Rightarrow> string \<Rightarrow> keydef \<Rightarrow> timestamp \<Rightarrow> storage \<Rightarrow> bool \<times> storage" where
  "UserManager_create uname pw keyData now s =
    Storage_set (STORAGE_PREFIX @ uname) (JUser (userData uname pw keyData now)) s"

definition UserManager_update :: "string \<Rightarrow> user \<Rightarrow> storage \<Rightarrow> bool \<times> storage" where
  "UserManager_update uname u s = Storage_set (STORAGE_PREFIX @ uname) (JUser u) s"

definition UserManager_delete :: "string \<Rightarrow> storage \<Rightarrow> bool \<times> storage" where
  "UserManager_delete uname s = Storage_remove (STORAGE_PREFIX @ uname) s"

text \<open>
  The \<^verbatim>\<open>forEach\<close> of \<^verbatim>\<open>updateKeyStatus\<close>: every key gets its flag recomputed, and
  \<^verbatim>\<open>changed\<close> records whether some flag differs from the stored one.
\<close>

fun refreshKeys :: "key list \<Rightarrow> timestamp \<Rightarrow> bool \<Rightarrow> key list \<times> bool" where
  "refreshKeys [] now changed = ([], changed)"
| "refreshKeys (k # ks) now changed =
    (let wasActive = active k;
         k' = k\<lparr>active := (\<not> isExpired (expiryDate k) now)\<rparr>;
         changed' = (if wasActive \<noteq> active k' then True else changed);
         (ks', c) = refreshKeys ks now changed'
     in (k' # ks', c))"

text \<open>
  \<^verbatim>\<open>updateKeyStatus(user)\<close> mutates \<^verbatim>\<open>user\<close> and returns it; the model returns the user
  after the call and the storage after the call.
\<close>

definition updateKeyStatus :: "user \<Rightarrow> timestamp \<Rightarrow> storage \<Rightarrow> user \<times> storage" where
  "updateKeyStatus u now s =
    (let (ks, changed) = refreshKeys (keys u) now False;
         u' = u\<lparr>keys := ks\<rparr>
     in (u', if changed then snd (UserManager_update (username u') u' s) else s))"

section \<open>Auth\<close>

text \<open>
  \<^verbatim>\<open>{ success: false, message }\<close>, \<^verbatim>\<open>{ success: true, message }\<close> and the
  \<^verbatim>\<open>{ success: true, redirectTo }\<close> of \<^verbatim>\<open>login\<close>.
\<close>

datatype result = Failure string | Success string | Redirect string

fun success :: "result \<Rightarrow> bool" where
  "success (Failure m) = False"
| "success (Success m) = True"
| "success (Redirect d) = True"

definition Auth_login :: "string \<Rightarrow> string \<Rightarrow> timestamp \<Rightarrow> storage \<Rightarrow> result \<times> storage" where
  "Auth_login uname pw now s =
    (case UserManager_get uname s of
       None \<Rightarrow> (Failure ''User not found'', s)
     | Some u \<Rightarrow>
         if password u \<noteq> pw then (Failure ''Incorrect password'', s)
         else
           (let u1 = u\<lparr>lastLogin := now\<rparr>;
                (u2, s1) = updateKeyStatus u1 now s;
                s2 = snd (UserManager_update uname u2 s1);
                s3 = snd (Storage_set CURRENT_USER_KEY (JString uname) s2)
            in (Redirect (if isAdmin u2 then ''admin.html'' else ''dashboard.html''), s3)))"

text \<open>\<^verbatim>\<open>user.keys.some(k => k.code === key)\<close>\<close>

definition holds_code :: "string \<Rightarrow> user \<Rightarrow> bool" where
  "holds_code k u = list_ex (\<lambda>x. code x = k) (keys u)"

definition Auth_register ::
  "string \<Rightarrow> string \<Rightarrow> string \<Rightarrow> timestamp \<Rightarrow> storage \<Rightarrow> result \<times> storage" where
  "Auth_register uname pw k now s =
    (case Validator_username uname of
       Invalid m \<Rightarrow> (Failure m, s)
     | Valid x \<Rightarrow>
    (case Validator_password pw of
       Invalid m \<Rightarrow> (Failure m, s)
     | Valid y \<Rightarrow>
    (case Validator_key k of
       Invalid m \<Rightarrow> (Failure m, s)
     | Valid keyData \<Rightarrow>
         if UserManager_exists uname s then (Failure ''Username already taken'', s)
         else if list_ex (holds_code k) (Storage_getAllUsers s)
           then (Failure ''Key already used'', s)
         else
           (let (created, s') = UserManager_create uname pw keyData now s
            in (if created then Success ''Account created successfully!''
                else Failure ''Failed to create account'', s')))))"

definition Auth_logout :: "storage \<Rightarrow> storage" where
  "Auth_logout s = snd (Storage_remove CURRENT_USER_KEY s)"

text \<open>
  \<^verbatim>\<open>getCurrentUser\<close>: the stored name (absent, or empty: \<^verbatim>\<open>!username\<close>) gives \<^verbatim>\<open>null\<close>;
  otherwise the user of that name, after \<^verbatim>\<open>updateKeyStatus\<close>.
\<close>

definition Auth_getCurrentUser :: "timestamp \<Rightarrow> storage \<Rightarrow> user option \<times> storage" where
  "Auth_getCurrentUser now s =
    (case Storage_get CURRENT_USER_KEY s of
       Some (JString uname) \<Rightarrow>
         if uname = [] then (None, s)
         else (case UserManager_get uname s of
                 None \<Rightarrow> (None, s)
               | Some u \<Rightarrow> (let (u', s') = updateKeyStatus u now s in (Some u', s')))
     | Some (JUser u) \<Rightarrow> (None, s)
     | None \<Rightarrow> (None, s))"

definition Auth_changePassword ::
  "string \<Rightarrow> string \<Rightarrow> string \<Rightarrow> timestamp \<Rightarrow> storage \<Rightarrow> result \<times> storage" where
  "Auth_changePassword currentPassword newPassword confirmPassword now s =
    (case Auth_getCurrentUser now s of
       (None, s1) \<Rightarrow> (Failure ''Not logged in'', s1)
     | (Some u, s1) \<Rightarrow>
         if password u \<noteq> currentPassword then (Failure ''Current password is incorrect'', s1)
         else (case Validator_password newPassword of
                 Invalid m \<Rightarrow> (Failure m, s1)
               | Valid x \<Rightarrow>
                   if newPassword \<noteq> confirmPassword then (Failure ''Passwords do not match'', s1)
                   else
                     (let u' = u\<lparr>password := newPassword\<rparr>;
                          s2 = snd (UserManager_update (username u') u' s1)
                      in (Success ''Password changed successfully'', s2))))"

section \<open>KeyManager\<close>

text \<open>
  \<^verbatim>\<open>redeem(key, user)\<close>: \<^verbatim>\<open>user\<close> is the caller's object (\<^verbatim>\<open>null\<close> is \<open>None\<close>), mutated by
  \<^verbatim>\<open>user.keys.push\<close>; the model returns the result, the user after the call and the storage
  after the call.
\<close>

definition KeyManager_redeem ::
  "string \<Rightarrow> user option \<Rightarrow> timestamp \<Rightarrow> storage \<Rightarrow> result \<times> user option \<times> storage" where
  "KeyManager_redeem k usr now s =
    (case usr of
       None \<Rightarrow> (Failure ''Not logged in'', None, s)
     | Some u \<Rightarrow>
         (case Validator_key k of
            Invalid m \<Rightarrow> (Failure m, Some u, s)
          | Valid keyData \<Rightarrow>
              if holds_code k u then (Failure ''You already have this key'', Some u, s)
              else
                (let expiry = calculateExpiryDate (duration keyData) now;
                     u' = u\<lparr>keys := keys u @
                       [\<lparr>code = k, duration = duration keyData, type = type keyData,
                         game = ''Reverse'', active = (\<not> isExpired expiry now),
                         activatedDate = now, expiryDate = expiry\<rparr>]\<rparr>;
                     s' = snd (UserManager_update (username u') u' s)
                 in (Success ''Key activated successfully!'', Some u', s'))))"

text \<open>\<^verbatim>\<open>getActiveCount(user)\<close>: \<^verbatim>\<open>user.keys.filter(k => k.active).length\<close>.\<close>

definition getActiveCount :: "user \<Rightarrow> nat" where
  "getActiveCount u = length (filter active (keys u))"

section \<open>Vocabulary of the properties\<close>

text \<open>The alphabet \<^verbatim>\<open>chars\<close> of \<^verbatim>\<open>Utils.generateKey\<close>: the upper-case letters and the digits.\<close>

definition chars :: string where
  "chars = ''ABCDEFGHIJKLMNOPQRSTUVWXYZ0123456789''"

text \<open>
  The key format in the specification's words: four groups of four upper-case alphanumeric
  characters, separated by hyphens (\<^verbatim>\<open>XXXX-XXXX-XXXX-XXXX\<close>).
\<close>

definition group4 :: "string \<Rightarrow> bool" where
  "group4 g = (length g = 4 \<and> list_all (\<lambda>c. c \<in> set chars) g)"

definition xxxx_format :: "string \<Rightarrow> bool" where
  "xxxx_format k =
    (\<exists>g1 g2 g3 g4. k = g1 @ ''-'' @ g2 @ ''-'' @ g3 @ ''-'' @ g4
       \<and> group4 g1 \<and> group4 g2 \<and> group4 g3 \<and> group4 g4)"

text \<open>The user after the \<^verbatim>\<open>forEach\<close> of \<^verbatim>\<open>updateKeyStatus\<close> at time \<open>now\<close>.\<close>

definition refreshed :: "timestamp \<Rightarrow> user \<Rightarrow> user" where
  "refreshed now u = u\<lparr>keys := map (\<lambda>k. k\<lparr>active := (\<not> isExpired (expiryDate k) now)\<rparr>) (keys u)\<rparr>"

text \<open>A key that has not expired at \<open>now\<close>: no expiry date, or \<open>now\<close> not past it.\<close>

definition unexpired_at :: "timestamp \<Rightarrow> key \<Rightarrow> bool" where
  "unexpired_at now k = (case expiryDate k of None \<Rightarrow> True | Some e \<Rightarrow> now \<le> e)"

text \<open>Every key of the user that has no expiry date is flagged active.\<close>

definition lifetime_active :: "user \<Rightarrow> bool" where
  "lifetime_active u = list_all (\<lambda>k. expiryDate k = None \<longrightarrow> active k) (keys u)"

text \<open>The same of every user object in the storage.\<close>

fun lifetime_active_json :: "json \<Rightarrow> bool" where
  "lifetime_active_json (JUser u) = lifetime_active u"
| "lifetime_active_json (JString x) = True"

definition lifetime_active_storage :: "storage \<Rightarrow> bool" where
  "lifetime_active_storage s = list_all (\<lambda>kv. lifetime_active_json (snd kv)) (items s)"

text \<open>
  No code occurs twice among the keys of the stored accounts: neither in two accounts nor
  twice in one.
\<close>

definition unique_codes :: "storage \<Rightarrow> bool" where
  "unique_codes s = distinct (concat (map (\<lambda>u. map code (keys u)) (Storage_getAllUsers s)))"

text \<open>A sequence of registrations, each with its name, password, key and time.\<close>

fun registrations :: "(string \<times> string \<times> string \<times> timestamp) list \<Rightarrow> storage \<Rightarrow> storage" where
  "registrations [] s = s"
| "registrations ((u, p, k, now) # rs) s = registrations rs (snd (Auth_register u p k now s))"

text \<open>
  The entries that the program writes: user objects under keys that start with
  \<^verbatim>\<open>'user_'\<close>, and a string under \<^verbatim>\<open>'currentUser'\<close>.
\<close>


fun wf_entry :: "string \<times> json \<Rightarrow> bool" where
  "wf_entry (k, JUser u) = (take (length STORAGE_PREFIX) k = STORAGE_PREFIX)"
| "wf_entry (k, JString x) = (k = CURRENT_USER_KEY)"

definition wf_storage :: "storage \<Rightarrow> bool" where
  "wf_storage s = list_all wf_entry (items s)"

section \<open>Concrete states\<close>

text \<open>An empty \<^verbatim>\<open>localStorage\<close> that accepts writes.\<close>

definition empty_storage :: storage where
  "empty_storage = \<lparr>items = [], setItem_throws = False, setCalls = 0\<rparr>"

text \<open>
  The account that \<^verbatim>\<open>register("alice", "secret1", "DEMO-1234-ABCD-5678")\<close> stores at time
  \<open>0\<close>, and the storage after that registration.
\<close>

definition alice :: user where
  "alice = \<lparr>username = ''alice'', password = ''secret1'', isAdmin = False,
     keys = [\<lparr>code = ''DEMO-1234-ABCD-5678'', duration = ''1day'', type = ''Trial'',
              game = ''Reverse'', active = True, activatedDate = 0,
              expiryDate = Some 86400000\<rparr>],
     joinDate = 0, balance = 0, totalOrders = 0, lastLogin = 0\<rparr>"

definition alice_storage :: storage where
  "alice_storage = \<lparr>items = [(''user_alice'', JUser alice)], setItem_throws = False, setCalls = 1\<rparr>"

text \<open>Two days after time \<open>0\<close>, in milliseconds.\<close>

definition two_days :: timestamp where
  "two_days = 172800000"

text \<open>
  An account whose only key is a lifetime key (no expiry date) that is flagged inactive, and
  a storage that holds it.
\<close>

definition dave :: user where
  "dave = \<lparr>username = ''dave'', password = ''secret1'', isAdmin = False,
     keys = [\<lparr>code = ''PREMIUM-2025-ALPHA'', duration = ''lifetime'', type = ''Premium'',
              game = ''Reverse'', active = False, activatedDate = 0, expiryDate = None\<rparr>],
     joinDate = 0, balance = 0, totalOrders = 0, lastLogin = 0\<rparr>"

definition dave_storage :: storage where
  "dave_storage = \<lparr>items = [(''user_dave'', JUser (refreshed 0 dave))], setItem_throws = False,
     setCalls = 1\<rparr>"

text \<open>Bob's account after his login at time \<open>2\<close>.\<close>

definition bob :: user where
  "bob = \<lparr>username = ''bob'', password = ''secret1'', isAdmin = False,
     keys = [\<lparr>code = ''TEST-KEY1-2025-GAME'', duration = ''1week'', type = ''Standard'',
              game = ''Reverse'', active = True, activatedDate = 1,
              expiryDate = Some 604800001\<rparr>],
     joinDate = 1, balance = 0, totalOrders = 0, lastLogin = 2\<rparr>"

text \<open>Bob's account with the key of alice appended at time \<open>4\<close>.\<close>

definition bob_with_alice_key :: user where
  "bob_with_alice_key = bob\<lparr>keys := keys bob @
     [\<lparr>code = ''DEMO-1234-ABCD-5678'', duration = ''1day'', type = ''Trial'',
       game = ''Reverse'', active = True, activatedDate = 4, expiryDate = Some 86400004\<rparr>]\<rparr>"

text \<open>
  After alice's registration: bob registers with another key at time \<open>1\<close>, logs in at
  time \<open>2\<close>, and at time \<open>4\<close> redeems alice's key with the user object that
  \<^verbatim>\<open>getCurrentUser\<close> gave him at time \<open>3\<close>.
\<close>

definition bob_storage :: storage where
  "bob_storage = snd (Auth_register ''bob'' ''secret1'' ''TEST-KEY1-2025-GAME'' 1 alice_storage)"

definition bob_session :: storage where
  "bob_session = snd (Auth_login ''bob'' ''secret1'' 2 bob_storage)"

definition bob_redeems :: "result \<times> user option \<times> storage" where
  "bob_redeems =
    KeyManager_redeem ''DEMO-1234-ABCD-5678'' (fst (Auth_getCurrentUser 3 bob_session)) 4
      (snd (Auth_getCurrentUser 3 bob_session))"

text \<open>
  Storages whose \<^verbatim>\<open>setItem\<close> throws: the one that holds alice, and the one that holds alice
  and her session.
\<close>

definition full_storage :: storage where
  "full_storage = \<lparr>items = [(''user_alice'', JUser alice)], setItem_throws = True, setCalls = 1\<rparr>"

definition full_session :: storage where
  "full_session = \<lparr>items = [(''user_alice'', JUser alice), (''currentUser'', JString ''alice'')],
     setItem_throws = True, setCalls = 3\<rparr>"

section \<open>Basic facts\<close>

subsection \<open>The key pattern\<close>

lemma upper_codes: "map char_of [65..<91::nat] = ''ABCDEFGHIJKLMNOPQRSTUVWXYZ''"
  by code_simp

lemma digit_codes: "map char_of [48..<58::nat] = ''0123456789''"
  by code_simp

lemma chars_split: "set chars = set ''ABCDEFGHIJKLMNOPQRSTUVWXYZ'' \<union> set ''0123456789''"
  unfolding chars_def by (simp only: set_append[symmetric] append.simps)

lemma of_char_cases:
  fixes c :: char
  assumes "lo \<le> (of_char c :: nat)" "(of_char c :: nat) < hi"
  shows "c \<in> set (map char_of [lo..<hi])"
proof -
  have "c = char_of (of_char c :: nat)" by simp
  moreover have "(of_char c :: nat) \<in> set [lo..<hi]" using assms by simp
  ultimately show ?thesis by (metis image_eqI set_map)
qed

text \<open>The class \<^verbatim>\<open>[A-Z0-9]\<close> is the alphabet of \<^verbatim>\<open>generateKey\<close>.\<close>

lemma in_class_upper_alnum: "in_class upper_alnum c = (c \<in> set chars)"
proof
  assume "in_class upper_alnum c"
  then consider "65 \<le> (of_char c :: nat) \<and> (of_char c :: nat) < 91"
    | "48 \<le> (of_char c :: nat) \<and> (of_char c :: nat) < 58"
    by (auto simp: in_class_def upper_alnum_def in_range_def)
  then show "c \<in> set chars"
  proof cases
    case 1
    then have "c \<in> set (map char_of [65..<91::nat])" by (simp only: of_char_cases)
    then have "c \<in> set ''ABCDEFGHIJKLMNOPQRSTUVWXYZ''" by (simp only: upper_codes)
    then show ?thesis by (simp only: chars_split Un_iff simp_thms)
  next
    case 2
    then have "c \<in> set (map char_of [48..<58::nat])" by (simp only: of_char_cases)
    then have "c \<in> set ''0123456789''" by (simp only: digit_codes)
    then show ?thesis by (simp only: chars_split Un_iff simp_thms)
  qed
next
  assume "c \<in> set chars"
  then have "c \<in> set ''ABCDEFGHIJKLMNOPQRSTUVWXYZ'' \<or> c \<in> set ''0123456789''"
    by (simp only: chars_split Un_iff)
  then show "in_class upper_alnum c"
    unfolding in_class_def upper_alnum_def in_range_def
    by (elim disjE) (simp_all, (elim disjE; simp)+)
qed

lemma group4_iff: "group4 g = (length g = 4 \<and> list_all (in_class upper_alnum) g)"
  by (simp add: group4_def list_all_iff in_class_upper_alnum)

lemma anchored_group_intro:
  "group4 g \<Longrightarrow> anchored as r \<Longrightarrow>
     anchored (Rep upper_alnum 4 # Lit CHR ''-'' # as) (g @ CHR ''-'' # r)"
  by (simp add: group4_iff)

lemma anchored_group_elim:
  assumes "anchored (Rep upper_alnum 4 # Lit CHR ''-'' # as) s"
  shows "\<exists>g r. s = g @ CHR ''-'' # r \<and> group4 g \<and> anchored as r"
proof -
  from assms have len: "4 \<le> length s" and cls: "list_all (in_class upper_alnum) (take 4 s)"
    and rest: "anchored (Lit CHR ''-'' # as) (drop 4 s)"
    by simp_all
  from rest obtain r where r: "drop 4 s = CHR ''-'' # r" "anchored as r"
    by (cases "drop 4 s") auto
  have "s = take 4 s @ drop 4 s" by simp
  with r have "s = take 4 s @ CHR ''-'' # r" by simp
  moreover from len cls have "group4 (take 4 s)" by (simp add: group4_iff)
  ultimately show ?thesis using r(2) by blast
qed

lemma anchored_last_group: "anchored [Rep upper_alnum 4] s = group4 s"
  by (auto simp: group4_iff)

lemma keyPattern_xxxx: "anchored keyPattern k = xxxx_format k"
proof
  assume "anchored keyPattern k"
  then obtain g1 r1 where 1: "k = g1 @ CHR ''-'' # r1" "group4 g1"
      "anchored [Rep upper_alnum 4, Lit CHR ''-'', Rep upper_alnum 4, Lit CHR ''-'', Rep upper_alnum 4] r1"
    unfolding keyPattern_def using anchored_group_elim by blast
  from anchored_group_elim[OF 1(3)] obtain g2 r2 where 2: "r1 = g2 @ CHR ''-'' # r2" "group4 g2"
      "anchored [Rep upper_alnum 4, Lit CHR ''-'', Rep upper_alnum 4] r2"
    by blast
  from anchored_group_elim[OF 2(3)] obtain g3 r3 where 3: "r2 = g3 @ CHR ''-'' # r3" "group4 g3"
      "anchored [Rep upper_alnum 4] r3"
    by blast
  from 3 have 4: "group4 r3" by (simp only: anchored_last_group)
  have "k = g1 @ ''-'' @ g2 @ ''-'' @ g3 @ ''-'' @ r3"
    by (simp only: 1(1) 2(1) 3(1) append.simps)
  with 1(2) 2(2) 3(2) 4 show "xxxx_format k"
    unfolding xxxx_format_def by blast
next
  assume "xxxx_format k"
  then obtain g1 g2 g3 g4 where k: "k = g1 @ ''-'' @ g2 @ ''-'' @ g3 @ ''-'' @ g4"
    and g: "group4 g1" "group4 g2" "group4 g3" "group4 g4"
    unfolding xxxx_format_def by blast
  from g(4) have "anchored [Rep upper_alnum 4] g4" by (simp only: anchored_last_group)
  from anchored_group_intro[OF g(3) this] have
    "anchored [Rep upper_alnum 4, Lit CHR ''-'', Rep upper_alnum 4] (g3 @ CHR ''-'' # g4)" .
  from anchored_group_intro[OF g(2) this] have
    "anchored [Rep upper_alnum 4, Lit CHR ''-'', Rep upper_alnum 4, Lit CHR ''-'', Rep upper_alnum 4]
       (g2 @ CHR ''-'' # g3 @ CHR ''-'' # g4)" .
  from anchored_group_intro[OF g(1) this] show "anchored keyPattern k"
    unfolding keyPattern_def k by (simp only: append.simps)
qed

lemma group4_length: "group4 g \<Longrightarrow> length g = 4"
  by (simp add: group4_def)

lemma xxxx_length: "xxxx_format k \<Longrightarrow> length k = 19"
proof -
  assume "xxxx_format k"
  then obtain g1 g2 g3 g4 where k: "k = g1 @ ''-'' @ g2 @ ''-'' @ g3 @ ''-'' @ g4"
    and g: "group4 g1" "group4 g2" "group4 g3" "group4 g4"
    unfolding xxxx_format_def by blast
  show ?thesis unfolding k using g by (simp add: group4_length)
qed

subsection \<open>The catalog\<close>

lemma find_distinct_code:
  "distinct (map code xs) \<Longrightarrow> d \<in> set xs \<Longrightarrow> find (\<lambda>x. code x = code d) xs = Some d"
  by (induction xs) (auto simp: image_iff)

lemma VALID_KEYS_distinct: "distinct (map code VALID_KEYS)"
  by (simp add: VALID_KEYS_def)

lemma find_None_code: "k \<notin> code ` set xs \<Longrightarrow> find (\<lambda>x. code x = k) xs = None"
  by (auto simp: find_None_iff)

lemma anchored_eval:
  "anchored keyPattern ''PREMIUM-2025-ALPHA'' = False"
  "anchored keyPattern ''ADMIN-2025-MASTER-KEY'' = False"
  "anchored keyPattern ''ABCD-1234-ABCD-1234'' = True"
  "anchored keyPattern ''DEMO-1234-ABCD-5678'' = True"
  "anchored keyPattern ''TEST-KEY1-2025-GAME'' = True"
  by (simp_all add: keyPattern_def upper_alnum_def in_class_def in_range_def)

subsection \<open>Validators at concrete inputs\<close>

lemmas validator_defs = Validator_username_def Validator_password_def Validator_key_def
  Validator_key_in_def usernamePattern_def MIN_USERNAME_LENGTH_def MAX_USERNAME_LENGTH_def
  MIN_PASSWORD_LENGTH_def in_class_def in_range_def

lemma username_alice: "Validator_username ''alice'' = Valid ()"
  by (simp add: validator_defs)

lemma password_secret1: "Validator_password ''secret1'' = Valid ()"
  by (simp add: validator_defs)

lemma key_DEMO: "Validator_key ''DEMO-1234-ABCD-5678''
    = Valid \<lparr>code = ''DEMO-1234-ABCD-5678'', duration = ''1day'', type = ''Trial''\<rparr>"
  by (simp add: Validator_key_def Validator_key_in_def anchored_eval VALID_KEYS_def)

lemma expiry_1day: "calculateExpiryDate ''1day'' now = Some (now + 86400000)"
  by (simp add: calculateExpiryDate_def DURATIONS_def)

text \<open>\<open>alice_storage\<close> is the storage after the registration of alice at time \<open>0\<close>.\<close>

lemma register_alice:
  "Auth_register ''alice'' ''secret1'' ''DEMO-1234-ABCD-5678'' 0 empty_storage
     = (Success ''Account created successfully!'', alice_storage)"
  by (simp add: Auth_register_def username_alice password_secret1 key_DEMO
      UserManager_exists_def Storage_get_def empty_storage_def Storage_getAllUsers_def
      UserManager_create_def userData_def Let_def Storage_set_def STORAGE_PREFIX_def expiry_1day
      isExpired_def alice_storage_def alice_def)

subsection \<open>Key status\<close>

lemma refreshKeys_eq:
  "refreshKeys ks now c =
     (map (\<lambda>k. k\<lparr>active := (\<not> isExpired (expiryDate k) now)\<rparr>) ks,
      c \<or> list_ex (\<lambda>k. active k \<noteq> (\<not> isExpired (expiryDate k) now)) ks)"
  by (induction ks arbitrary: c) (auto simp: Let_def)

lemma updateKeyStatus_eq:
  "updateKeyStatus u now s =
     (refreshed now u,
      if list_ex (\<lambda>k. active k \<noteq> (\<not> isExpired (expiryDate k) now)) (keys u)
      then snd (UserManager_update (username u) (refreshed now u) s) else s)"
  by (simp add: updateKeyStatus_def refreshKeys_eq Let_def refreshed_def)

lemma refreshed_idem: "refreshed now (refreshed now u) = refreshed now u"
  by (simp add: refreshed_def o_def)

lemma refreshed_unchanged:
  "list_ex (\<lambda>k. active k \<noteq> (\<not> isExpired (expiryDate k) now)) (keys (refreshed now u)) = False"
  by (simp add: refreshed_def list_ex_iff)

subsection \<open>Storage and account creation\<close>

lemma Storage_get_set:
  "\<not> setItem_throws s \<Longrightarrow> Storage_get k (snd (Storage_set k v s)) = Some v"
  by (simp add: Storage_get_def Storage_set_def update_conv')

lemma Storage_set_ok: "fst (Storage_set k v s) = (\<not> setItem_throws s)"
  by (simp add: Storage_set_def)


lemma get_after_create:
  "\<not> setItem_throws s \<Longrightarrow>
     UserManager_get un (snd (UserManager_create un pw kd now s)) = Some (userData un pw kd now)"
  by (simp add: UserManager_create_def UserManager_get_def Storage_get_set)

lemma Validator_key_Valid:
  "Validator_key k = Valid d \<Longrightarrow> code d = k \<and> d \<in> set VALID_KEYS"
  by (auto simp: Validator_key_def Validator_key_in_def find_Some_iff in_set_conv_nth
      split: if_splits option.splits)

subsection \<open>Messages\<close>





lemma get_alice: "UserManager_get ''alice'' alice_storage = Some alice"
  by (simp add: UserManager_get_def Storage_get_def alice_storage_def STORAGE_PREFIX_def)

subsection \<open>The branches of registration\<close>



lemma register_key_invalid:
  "Validator_username u = Valid () \<Longrightarrow> Validator_password p = Valid () \<Longrightarrow>
     Validator_key k = Invalid m \<Longrightarrow> Auth_register u p k n s = (Failure m, s)"
  by (simp add: Auth_register_def)


lemma register_key_used:
  "Validator_username u = Valid () \<Longrightarrow> Validator_password p = Valid () \<Longrightarrow>
     Validator_key k = Valid d \<Longrightarrow> \<not> UserManager_exists u s \<Longrightarrow>
     list_ex (holds_code k) (Storage_getAllUsers s) \<Longrightarrow>
     Auth_register u p k n s = (Failure ''Key already used'', s)"
  by (simp add: Auth_register_def)

lemma register_creates:
  "Validator_username u = Valid () \<Longrightarrow> Validator_password p = Valid () \<Longrightarrow>
     Validator_key k = Valid d \<Longrightarrow> \<not> UserManager_exists u s \<Longrightarrow>
     \<not> list_ex (holds_code k) (Storage_getAllUsers s) \<Longrightarrow>
     Auth_register u p k n s =
       (if fst (UserManager_create u p d n s) then Success ''Account created successfully!''
        else Failure ''Failed to create account'', snd (UserManager_create u p d n s))"
  by (simp add: Auth_register_def split_beta)


lemma witness_validators:
  "Validator_username ''x'' = Invalid ''Username must be at least 3 characters''"
  "Validator_username ''carol'' = Valid ()"
  "Validator_password ''pw'' = Invalid ''Password must be at least 6 characters''"
  "Validator_password ''pw12345'' = Valid ()"
  "Validator_key ''BAD-FORMAT'' = Invalid ''Invalid key format (use: XXXX-XXXX-XXXX-XXXX)''"
  "Validator_key ''ADMIN-2025-MASTER-KEY'' = Invalid ''Invalid key format (use: XXXX-XXXX-XXXX-XXXX)''"
  by (simp_all add: validator_defs keyPattern_def upper_alnum_def)


subsection \<open>Keys without expiry date\<close>

lemma lifetime_active_refreshed: "lifetime_active (refreshed now u)"
  by (simp add: lifetime_active_def refreshed_def list_all_iff isExpired_def)

lemma lifetime_active_userData: "lifetime_active (userData un pw kd now)"
  by (simp add: lifetime_active_def userData_def Let_def isExpired_def)

lemma lifetime_active_fields:
  "lifetime_active (u\<lparr>password := p\<rparr>) = lifetime_active u"
  "lifetime_active (u\<lparr>lastLogin := t\<rparr>) = lifetime_active u"
  by (simp_all add: lifetime_active_def)

lemma lifetime_active_push:
  "lifetime_active u \<Longrightarrow>
     lifetime_active (u\<lparr>keys := keys u @
       [\<lparr>code = k, duration = d, type = ty, game = g,
         active = (\<not> isExpired e now), activatedDate = now, expiryDate = e\<rparr>]\<rparr>)"
  by (simp add: lifetime_active_def isExpired_def)

lemma list_all_update:
  "list_all P al \<Longrightarrow> P (k, v) \<Longrightarrow> list_all P (AList.update k v al)"
  by (induction al) auto

lemma list_all_delete: "list_all P al \<Longrightarrow> list_all P (AList.delete k al)"
  by (induction al) auto

lemma lifetime_Storage_set:
  "lifetime_active_storage s \<Longrightarrow> lifetime_active_json v \<Longrightarrow>
     lifetime_active_storage (snd (Storage_set k v s))"
  by (simp add: lifetime_active_storage_def Storage_set_def list_all_update)

lemma lifetime_Storage_remove:
  "lifetime_active_storage s \<Longrightarrow> lifetime_active_storage (snd (Storage_remove k s))"
  by (simp add: lifetime_active_storage_def Storage_remove_def list_all_delete)

lemma lifetime_update:
  "lifetime_active_storage s \<Longrightarrow> lifetime_active u \<Longrightarrow>
     lifetime_active_storage (snd (UserManager_update n u s))"
  by (simp add: UserManager_update_def lifetime_Storage_set)

lemma lifetime_updateKeyStatus:
  "lifetime_active_storage s \<Longrightarrow> lifetime_active_storage (snd (updateKeyStatus u now s))"
  by (simp add: updateKeyStatus_eq lifetime_update lifetime_active_refreshed)

lemma lifetime_register:
  "lifetime_active_storage s \<Longrightarrow> lifetime_active_storage (snd (Auth_register u p k now s))"
  by (simp add: Auth_register_def UserManager_create_def lifetime_Storage_set
      lifetime_active_userData split_beta split: validation.splits)

lemma lifetime_login:
  "lifetime_active_storage s \<Longrightarrow> lifetime_active_storage (snd (Auth_login u p now s))"
  by (simp add: Auth_login_def updateKeyStatus_eq Let_def lifetime_update lifetime_Storage_set
      lifetime_active_refreshed split: option.splits)

lemma lifetime_getCurrentUser:
  "lifetime_active_storage s \<Longrightarrow> lifetime_active_storage (snd (Auth_getCurrentUser now s))"
  by (simp add: Auth_getCurrentUser_def lifetime_updateKeyStatus split_beta
      split: option.splits json.splits)

lemma getCurrentUser_lifetime:
  "fst (Auth_getCurrentUser now s) = Some a \<Longrightarrow> lifetime_active a"
  by (auto simp: Auth_getCurrentUser_def updateKeyStatus_eq lifetime_active_refreshed
      split: option.splits json.splits if_splits)

lemma lifetime_changePassword:
  "lifetime_active_storage s \<Longrightarrow>
     lifetime_active_storage (snd (Auth_changePassword c n f now s))"
proof -
  assume a: "lifetime_active_storage s"
  obtain cu s1 where g: "Auth_getCurrentUser now s = (cu, s1)" by (cases "Auth_getCurrentUser now s")
  from a g have s1: "lifetime_active_storage s1" using lifetime_getCurrentUser [of s now] by simp
  show ?thesis
  proof (cases cu)
    case None
    with g s1 show ?thesis by (simp add: Auth_changePassword_def)
  next
    case (Some u)
    with g have "lifetime_active u" using getCurrentUser_lifetime [of now s u] by simp
    with g s1 Some show ?thesis
      by (simp add: Auth_changePassword_def Let_def lifetime_update lifetime_active_fields
          split: validation.splits)
  qed
qed

lemma lifetime_logout:
  "lifetime_active_storage s \<Longrightarrow> lifetime_active_storage (Auth_logout s)"
  by (simp add: Auth_logout_def lifetime_Storage_remove)

lemma redeem_user:
  "fst (snd (KeyManager_redeem k (Some u) now s)) =
     Some (case Validator_key k of
             Invalid m \<Rightarrow> u
           | Valid keyData \<Rightarrow>
               if holds_code k u then u
               else u\<lparr>keys := keys u @
                 [\<lparr>code = k, duration = duration keyData, type = type keyData,
                   game = ''Reverse'',
                   active = (\<not> isExpired (calculateExpiryDate (duration keyData) now) now),
                   activatedDate = now,
                   expiryDate = calculateExpiryDate (duration keyData) now\<rparr>]\<rparr>)"
  by (simp add: KeyManager_redeem_def Let_def split: validation.splits)

lemma lifetime_redeem_user:
  "lifetime_active u \<Longrightarrow> fst (snd (KeyManager_redeem k (Some u) now s)) = Some u' \<Longrightarrow>
     lifetime_active u'"
  by (auto simp: redeem_user lifetime_active_push split: validation.splits if_splits)

lemma lifetime_redeem_storage:
  "lifetime_active_storage s \<Longrightarrow> lifetime_active u \<Longrightarrow>
     lifetime_active_storage (snd (snd (KeyManager_redeem k (Some u) now s)))"
  by (simp add: KeyManager_redeem_def Let_def lifetime_update lifetime_active_push
      split: validation.splits)


lemma dave_facts:
  "\<not> lifetime_active dave"
  "lifetime_active (refreshed 0 dave)"
  "refreshed 5 dave = refreshed 0 dave"
  "map expiryDate (keys (refreshed 0 dave)) = [None]"
  "map active (keys (refreshed 0 dave)) = [True]"
  "lifetime_active_storage dave_storage"
  "\<not> setItem_throws empty_storage"
  by (simp_all add: lifetime_active_def dave_def refreshed_def isExpired_def
      lifetime_active_storage_def dave_storage_def empty_storage_def)

lemma create_dave:
  "UserManager_create ''dave'' ''secret1''
      \<lparr>code = ''PREMIUM-2025-ALPHA'', duration = ''lifetime'', type = ''Premium''\<rparr> 0 empty_storage
    = (True, dave_storage)"
  by (simp add: UserManager_create_def userData_def Let_def calculateExpiryDate_def isExpired_def
      Storage_set_def empty_storage_def dave_storage_def dave_def refreshed_def STORAGE_PREFIX_def)

lemma get_dave: "UserManager_get ''dave'' dave_storage = Some (refreshed 0 dave)"
  by (simp add: UserManager_get_def Storage_get_def dave_storage_def STORAGE_PREFIX_def)

lemma key_TEST: "Validator_key ''TEST-KEY1-2025-GAME''
    = Valid \<lparr>code = ''TEST-KEY1-2025-GAME'', duration = ''1week'', type = ''Standard''\<rparr>"
  by (simp add: Validator_key_def Validator_key_in_def anchored_eval VALID_KEYS_def)

lemma expiry_1week: "calculateExpiryDate ''1week'' now = Some (now + 604800000)"
  by (simp add: calculateExpiryDate_def DURATIONS_def)

subsection \<open>Bob redeems the key of alice\<close>

lemma username_bob: "Validator_username ''bob'' = Valid ()"
  by (simp add: validator_defs)

lemma bob_storage_eq:
  "Auth_register ''bob'' ''secret1'' ''TEST-KEY1-2025-GAME'' 1 alice_storage =
     (Success ''Account created successfully!'',
      \<lparr>items = [(''user_alice'', JUser alice),
                (''user_bob'', JUser (userData ''bob'' ''secret1''
                   \<lparr>code = ''TEST-KEY1-2025-GAME'', duration = ''1week'', type = ''Standard''\<rparr> 1))],
       setItem_throws = False, setCalls = 2\<rparr>)"
  by (simp add: Auth_register_def username_bob password_secret1 key_TEST UserManager_exists_def
      Storage_get_def alice_storage_def Storage_getAllUsers_def STORAGE_PREFIX_def holds_code_def
      UserManager_create_def Storage_set_def)
    (simp add: alice_def)

lemma bob_storage_items:
  "bob_storage =
      \<lparr>items = [(''user_alice'', JUser alice),
                (''user_bob'', JUser (userData ''bob'' ''secret1''
                   \<lparr>code = ''TEST-KEY1-2025-GAME'', duration = ''1week'', type = ''Standard''\<rparr> 1))],
       setItem_throws = False, setCalls = 2\<rparr>"
  by (simp add: bob_storage_def bob_storage_eq)

lemma userData_bob:
  "userData ''bob'' ''secret1''
     \<lparr>code = ''TEST-KEY1-2025-GAME'', duration = ''1week'', type = ''Standard''\<rparr> 1
   = bob\<lparr>lastLogin := 1\<rparr>"
  by (simp add: userData_def Let_def expiry_1week isExpired_def bob_def)

lemma refreshed_bob: "refreshed 2 (bob\<lparr>lastLogin := t\<rparr>) = bob\<lparr>lastLogin := t\<rparr>"
  "refreshed 3 bob = bob"
  by (simp_all add: refreshed_def bob_def isExpired_def)

lemma bob_unchanged:
  "list_ex (\<lambda>k. active k \<noteq> (\<not> isExpired (expiryDate k) 2)) (keys (bob\<lparr>lastLogin := t\<rparr>)) = False"
  "list_ex (\<lambda>k. active k \<noteq> (\<not> isExpired (expiryDate k) 3)) (keys bob) = False"
  by (simp_all add: bob_def isExpired_def)

lemma bob_login:
  "Auth_login ''bob'' ''secret1'' 2 bob_storage =
     (Redirect ''dashboard.html'',
      \<lparr>items = [(''user_alice'', JUser alice), (''user_bob'', JUser bob),
                (''currentUser'', JString ''bob'')],
       setItem_throws = False, setCalls = 4\<rparr>)"
proof -
  have g: "UserManager_get ''bob'' bob_storage = Some (bob\<lparr>lastLogin := 1\<rparr>)"
    by (simp add: UserManager_get_def Storage_get_def bob_storage_items STORAGE_PREFIX_def
        userData_bob)
  have p: "password (bob\<lparr>lastLogin := 1\<rparr>) = ''secret1''" "bob\<lparr>lastLogin := 2\<rparr> = bob"
    "\<not> isAdmin bob"
    by (simp_all add: bob_def)
  have u: "updateKeyStatus bob 2 bob_storage = (bob, bob_storage)"
    using bob_unchanged(1) [of 2] refreshed_bob(1) [of 2] by (simp add: updateKeyStatus_eq p)
  show ?thesis
    by (simp add: Auth_login_def g p u Let_def)
      (simp add: UserManager_update_def Storage_set_def bob_storage_items STORAGE_PREFIX_def
        CURRENT_USER_KEY_def userData_bob)
qed

lemma bob_session_eq:
  "bob_session =
      \<lparr>items = [(''user_alice'', JUser alice), (''user_bob'', JUser bob),
                (''currentUser'', JString ''bob'')],
       setItem_throws = False, setCalls = 4\<rparr>"
  by (simp add: bob_session_def bob_login)

lemma bob_current:
  "Auth_getCurrentUser 3 bob_session = (Some bob, bob_session)"
proof -
  have c: "Storage_get CURRENT_USER_KEY bob_session = Some (JString ''bob'')"
    by (simp add: bob_session_eq Storage_get_def CURRENT_USER_KEY_def)
  have g: "UserManager_get ''bob'' bob_session = Some bob"
    by (simp add: bob_session_eq UserManager_get_def Storage_get_def STORAGE_PREFIX_def)
  have u: "updateKeyStatus bob 3 bob_session = (bob, bob_session)"
    using bob_unchanged(2) by (simp add: updateKeyStatus_eq refreshed_bob)
  show ?thesis by (simp add: Auth_getCurrentUser_def c g u)
qed

lemma holders:
  "\<not> holds_code ''DEMO-1234-ABCD-5678'' bob" "holds_code ''DEMO-1234-ABCD-5678'' alice"
  "holds_code ''DEMO-1234-ABCD-5678'' bob_with_alice_key"
  "username bob = ''bob''" "username alice = ''alice''" "username bob_with_alice_key = ''bob''"
  by (simp_all add: holds_code_def bob_def alice_def bob_with_alice_key_def)

lemma bob_redeems_eq:
  "bob_redeems =
     (Success ''Key activated successfully!'', Some bob_with_alice_key,
      \<lparr>items = [(''user_alice'', JUser alice), (''user_bob'', JUser bob_with_alice_key),
                (''currentUser'', JString ''bob'')],
       setItem_throws = False, setCalls = 5\<rparr>)"
  by (simp add: bob_redeems_def bob_current KeyManager_redeem_def key_DEMO holders expiry_1day
      isExpired_def Let_def UserManager_update_def Storage_set_def
      bob_with_alice_key_def [symmetric])
    (simp add: bob_session_eq STORAGE_PREFIX_def)

subsection \<open>Registrations keep the codes apart\<close>

lemma update_fresh: "map_of al k = None \<Longrightarrow> AList.update k v al = al @ [(k, v)]"
  by (induction al) (auto split: if_splits)

lemma getAllUsers_loop_append:
  "getAllUsers_loop (al @ [(STORAGE_PREFIX @ un, JUser u)]) = getAllUsers_loop al @ [u]"
  by (induction al rule: getAllUsers_loop.induct) (auto split: json.splits)

lemma not_held:
  "\<not> list_ex (holds_code k) us \<Longrightarrow> k \<notin> set (concat (map (\<lambda>u. map code (keys u)) us))"
  by (auto simp: list_ex_iff holds_code_def)

lemma unique_create:
  assumes "unique_codes s" "\<not> UserManager_exists un s"
    "\<not> list_ex (holds_code (code kd)) (Storage_getAllUsers s)"
  shows "unique_codes (snd (UserManager_create un pw kd now s))"
proof (cases "setItem_throws s")
  case True
  with assms(1) show ?thesis
    by (simp add: UserManager_create_def Storage_set_def unique_codes_def Storage_getAllUsers_def)
next
  case False
  from assms(2) have "map_of (items s) (STORAGE_PREFIX @ un) = None"
    by (simp add: UserManager_exists_def Storage_get_def)
  then have "Storage_getAllUsers (snd (UserManager_create un pw kd now s))
      = Storage_getAllUsers s @ [userData un pw kd now]"
    using False
    by (simp add: UserManager_create_def Storage_set_def Storage_getAllUsers_def update_fresh
        getAllUsers_loop_append)
  moreover have "map code (keys (userData un pw kd now)) = [code kd]"
    by (simp add: userData_def Let_def)
  ultimately show ?thesis
    using assms(1) not_held [OF assms(3)] by (simp add: unique_codes_def)
qed

lemma unique_register:
  "unique_codes s \<Longrightarrow> unique_codes (snd (Auth_register u p k now s))"
proof -
  assume a: "unique_codes s"
  show ?thesis
  proof (cases "\<exists>d. Validator_username u = Valid () \<and> Validator_password p = Valid ()
      \<and> Validator_key k = Valid d \<and> \<not> UserManager_exists u s
      \<and> \<not> list_ex (holds_code k) (Storage_getAllUsers s)")
    case True
    then obtain d where d: "Validator_username u = Valid ()" "Validator_password p = Valid ()"
      "Validator_key k = Valid d" "\<not> UserManager_exists u s"
      "\<not> list_ex (holds_code k) (Storage_getAllUsers s)"
      by blast
    from d(3) have "code d = k" using Validator_key_Valid by blast
    with a d show ?thesis
      by (simp add: register_creates [OF d] unique_create)
  next
    case False
    then have "snd (Auth_register u p k now s) = s"
      by (auto simp: Auth_register_def split: validation.splits)
    with a show ?thesis by simp
  qed
qed

lemma unique_concrete:
  "unique_codes empty_storage" "unique_codes bob_storage" "unique_codes bob_session"
  "\<not> unique_codes (snd (snd bob_redeems))"
  by (simp_all add: unique_codes_def Storage_getAllUsers_def empty_storage_def bob_storage_items
      bob_session_eq bob_redeems_eq STORAGE_PREFIX_def userData_bob)
    (simp_all add: alice_def bob_def bob_with_alice_key_def)

lemma register_carol:
  "Auth_register ''carol'' ''pw12345'' ''DEMO-1234-ABCD-5678'' 2 bob_storage
     = (Failure ''Key already used'', bob_storage)"
proof -
  have "\<not> UserManager_exists ''carol'' bob_storage"
    by (simp add: UserManager_exists_def Storage_get_def bob_storage_items STORAGE_PREFIX_def)
  moreover have "list_ex (holds_code ''DEMO-1234-ABCD-5678'') (Storage_getAllUsers bob_storage)"
    by (simp add: Storage_getAllUsers_def bob_storage_items STORAGE_PREFIX_def holders)
  ultimately show ?thesis
    using register_key_used [OF witness_validators(2) witness_validators(4) key_DEMO] by simp
qed

subsection \<open>A storage that refuses writes\<close>

lemma throws_Storage_set:
  "setItem_throws s \<Longrightarrow> items (snd (Storage_set k v s)) = items s"
  "setItem_throws s \<Longrightarrow> setItem_throws (snd (Storage_set k v s))"
  "setItem_throws s \<Longrightarrow> fst (Storage_set k v s) = False"
  by (simp_all add: Storage_set_def)

lemma throws_update:
  "setItem_throws s \<Longrightarrow> items (snd (UserManager_update n u s)) = items s"
  "setItem_throws s \<Longrightarrow> setItem_throws (snd (UserManager_update n u s))"
  by (simp_all add: UserManager_update_def throws_Storage_set)

lemma throws_updateKeyStatus:
  "setItem_throws s \<Longrightarrow> items (snd (updateKeyStatus u now s)) = items s"
  "setItem_throws s \<Longrightarrow> setItem_throws (snd (updateKeyStatus u now s))"
  by (simp_all add: updateKeyStatus_eq throws_update)

lemma throws_register:
  "setItem_throws s \<Longrightarrow> items (snd (Auth_register u p k now s)) = items s"
  by (simp add: Auth_register_def UserManager_create_def throws_Storage_set split_beta
      split: validation.splits)

lemma throws_register_fails:
  "setItem_throws s \<Longrightarrow> \<not> success (fst (Auth_register u p k now s))"
  by (simp add: Auth_register_def UserManager_create_def throws_Storage_set split_beta
      split: validation.splits)

lemma throws_login:
  "setItem_throws s \<Longrightarrow> items (snd (Auth_login u p now s)) = items s"
  by (simp add: Auth_login_def Let_def split_beta throws_Storage_set throws_update
      throws_updateKeyStatus split: option.splits)

lemma throws_getCurrentUser:
  "setItem_throws s \<Longrightarrow> items (snd (Auth_getCurrentUser now s)) = items s"
  "setItem_throws s \<Longrightarrow> setItem_throws (snd (Auth_getCurrentUser now s))"
  by (simp_all add: Auth_getCurrentUser_def split_beta throws_updateKeyStatus
      split: option.splits json.splits)

lemma throws_changePassword:
  "setItem_throws s \<Longrightarrow> items (snd (Auth_changePassword c n f now s)) = items s"
proof -
  assume a: "setItem_throws s"
  obtain cu s1 where g: "Auth_getCurrentUser now s = (cu, s1)"
    by (cases "Auth_getCurrentUser now s")
  with a throws_getCurrentUser [of s now] have s1: "items s1 = items s" "setItem_throws s1"
    by simp_all
  then show ?thesis
    by (simp add: Auth_changePassword_def g Let_def throws_update
        split: option.splits validation.splits)
qed

lemma throws_redeem:
  "setItem_throws s \<Longrightarrow> items (snd (snd (KeyManager_redeem k usr now s))) = items s"
  by (simp add: KeyManager_redeem_def Let_def throws_update
      split: option.splits validation.splits)

lemma full_facts:
  "setItem_throws full_storage" "setItem_throws full_session"
  "UserManager_get ''alice'' full_storage = Some alice"
  "UserManager_get ''alice'' full_session = Some alice"
  "Storage_get CURRENT_USER_KEY full_session = Some (JString ''alice'')"
  "\<not> UserManager_exists ''carol'' full_storage"
  "\<not> list_ex (holds_code ''TEST-KEY1-2025-GAME'') (Storage_getAllUsers full_storage)"
  "\<not> holds_code ''TEST-KEY1-2025-GAME'' alice"
  "password alice = ''secret1''" "\<not> isAdmin alice"
  by (simp_all add: full_storage_def full_session_def UserManager_get_def Storage_get_def
      STORAGE_PREFIX_def CURRENT_USER_KEY_def UserManager_exists_def Storage_getAllUsers_def
      holds_code_def alice_def)

subsection \<open>The entries of the storage\<close>

lemma wf_user_entry: "wf_entry (STORAGE_PREFIX @ n, JUser u)"
  by simp

lemma wf_current_entry: "wf_entry (CURRENT_USER_KEY, JString n)"
  by simp

lemma current_not_user: "take (length STORAGE_PREFIX) CURRENT_USER_KEY \<noteq> STORAGE_PREFIX"
  by (simp add: STORAGE_PREFIX_def CURRENT_USER_KEY_def)

lemma wf_Storage_set:
  "wf_storage s \<Longrightarrow> wf_entry (k, v) \<Longrightarrow> wf_storage (snd (Storage_set k v s))"
  by (simp add: wf_storage_def Storage_set_def list_all_update)

lemma wf_Storage_remove: "wf_storage s \<Longrightarrow> wf_storage (snd (Storage_remove k s))"
  by (simp add: wf_storage_def Storage_remove_def list_all_delete)

lemma wf_update: "wf_storage s \<Longrightarrow> wf_storage (snd (UserManager_update n u s))"
  by (simp add: UserManager_update_def wf_Storage_set)

lemma wf_updateKeyStatus: "wf_storage s \<Longrightarrow> wf_storage (snd (updateKeyStatus u now s))"
  by (simp add: updateKeyStatus_eq wf_update)

lemma wf_register: "wf_storage s \<Longrightarrow> wf_storage (snd (Auth_register u p k now s))"
  by (simp add: Auth_register_def UserManager_create_def wf_Storage_set split_beta
      split: validation.splits)

lemma wf_login: "wf_storage s \<Longrightarrow> wf_storage (snd (Auth_login u p now s))"
  by (simp add: Auth_login_def updateKeyStatus_eq Let_def wf_update wf_Storage_set
      split: option.splits)

lemma wf_getCurrentUser: "wf_storage s \<Longrightarrow> wf_storage (snd (Auth_getCurrentUser now s))"
  by (simp add: Auth_getCurrentUser_def wf_updateKeyStatus split_beta
      split: option.splits json.splits)

lemma wf_changePassword:
  "wf_storage s \<Longrightarrow> wf_storage (snd (Auth_changePassword c n f now s))"
proof -
  assume a: "wf_storage s"
  obtain cu s1 where g: "Auth_getCurrentUser now s = (cu, s1)"
    by (cases "Auth_getCurrentUser now s")
  from a g have "wf_storage s1" using wf_getCurrentUser [of s now] by simp
  with g show ?thesis
    by (simp add: Auth_changePassword_def Let_def wf_update
        split: option.splits validation.splits)
qed

lemma wf_logout: "wf_storage s \<Longrightarrow> wf_storage (Auth_logout s)"
  by (simp add: Auth_logout_def wf_Storage_remove)

lemma wf_redeem: "wf_storage s \<Longrightarrow> wf_storage (snd (snd (KeyManager_redeem k usr now s)))"
  by (simp add: KeyManager_redeem_def Let_def wf_update split: option.splits validation.splits)

lemma wf_map_of:
  "list_all wf_entry al \<Longrightarrow> map_of al k = Some v \<Longrightarrow> wf_entry (k, v)"
  by (induction al) (auto split: if_splits)

lemma wf_user_lookup:
  assumes "wf_storage s"
  shows "Storage_get (STORAGE_PREFIX @ n) s \<noteq> Some (JString x)"
proof
  assume "Storage_get (STORAGE_PREFIX @ n) s = Some (JString x)"
  with assms have "wf_entry (STORAGE_PREFIX @ n, JString x)"
    using wf_map_of [of "items s" "STORAGE_PREFIX @ n" "JString x"]
    by (simp add: wf_storage_def Storage_get_def)
  then have c: "CURRENT_USER_KEY = STORAGE_PREFIX @ n" by simp
  have "take (length STORAGE_PREFIX) CURRENT_USER_KEY = STORAGE_PREFIX"
    unfolding c by simp
  with current_not_user show False by simp
qed

lemma wf_current_lookup:
  assumes "wf_storage s"
  shows "Storage_get CURRENT_USER_KEY s \<noteq> Some (JUser u)"
proof
  assume "Storage_get CURRENT_USER_KEY s = Some (JUser u)"
  with assms have "wf_entry (CURRENT_USER_KEY, JUser u)"
    using wf_map_of [of "items s" CURRENT_USER_KEY "JUser u"]
    by (simp add: wf_storage_def Storage_get_def)
  with current_not_user show False by simp
qed

lemma wf_getAllUsers:
  "list_all wf_entry al \<Longrightarrow>
     getAllUsers_loop al = concat (map (\<lambda>kv. case snd kv of JUser u \<Rightarrow> [u] | JString x \<Rightarrow> []) al)"
  by (induction al rule: getAllUsers_loop.induct) (auto split: json.splits)

section \<open>Duration policy\<close>

text \<open>
  C6. For each duration name other than \<^verbatim>\<open>'lifetime'\<close>, the expiry date is the current time
  plus exactly one day, seven days or thirty days of milliseconds, and it is \<^verbatim>\<open>null\<close> for
  \<^verbatim>\<open>'lifetime'\<close>. A key without expiry date is never expired; a key with expiry date \<open>e\<close>
  is expired exactly when the clock is past \<open>e\<close>: not yet at \<open>now = e\<close>, and from
  \<open>now = e + 1\<close> on.
\<close>

theorem expiry_policy:
  "map fst DURATIONS = [''1day'', ''1week'', ''1month'', ''lifetime'']
   \<and> calculateExpiryDate ''1day'' now = Some (now + 86400000)
   \<and> calculateExpiryDate ''1week'' now = Some (now + 7 * 86400000)
   \<and> calculateExpiryDate ''1month'' now = Some (now + 30 * 86400000)
   \<and> calculateExpiryDate ''lifetime'' now = None
   \<and> isExpired None now = False
   \<and> isExpired (Some e) now = (now > e)
   \<and> isExpired (Some e) e = False
   \<and> isExpired (Some e) (e + 1) = True
   \<and> isExpired (Some e) now = (e + 1 \<le> now)"
  by (simp add: calculateExpiryDate_def DURATIONS_def isExpired_def) arith

section \<open>Key validation\<close>

text \<open>
  C5. \<^verbatim>\<open>Validator.key\<close> reports a missing key for the empty string. A non-empty key that is
  not of the form \<^verbatim>\<open>XXXX-XXXX-XXXX-XXXX\<close> (four groups of four upper-case alphanumeric
  characters, separated by hyphens) is reported as badly formed whatever the catalog holds,
  so before the catalog is consulted. A well-formed key that is the code of no catalog entry
  is reported as not found, and a well-formed key that is the code of a catalog entry is
  accepted with that entry.
\<close>

theorem validateKey_cases:
  "Validator_key [] = Invalid ''Key is required''
   \<and> (kb \<noteq> [] \<and> \<not> xxxx_format kb \<longrightarrow>
        Validator_key_in catalog kb = Invalid ''Invalid key format (use: XXXX-XXXX-XXXX-XXXX)'')
   \<and> (xxxx_format kn \<and> kn \<notin> code ` set VALID_KEYS \<longrightarrow>
        Validator_key kn = Invalid ''Invalid or expired key'')
   \<and> (xxxx_format (code d) \<and> d \<in> set VALID_KEYS \<longrightarrow> Validator_key (code d) = Valid d)"
proof (intro conjI impI)
  show "Validator_key [] = Invalid ''Key is required''"
    by (simp add: Validator_key_def Validator_key_in_def)
next
  assume "kb \<noteq> [] \<and> \<not> xxxx_format kb"
  then show "Validator_key_in catalog kb = Invalid ''Invalid key format (use: XXXX-XXXX-XXXX-XXXX)''"
    by (simp add: Validator_key_in_def keyPattern_xxxx)
next
  assume a: "xxxx_format kn \<and> kn \<notin> code ` set VALID_KEYS"
  then have "kn \<noteq> []" using xxxx_length by fastforce
  with a show "Validator_key kn = Invalid ''Invalid or expired key''"
    by (simp add: Validator_key_def Validator_key_in_def keyPattern_xxxx find_None_code)
next
  assume a: "xxxx_format (code d) \<and> d \<in> set VALID_KEYS"
  then have "code d \<noteq> []" using xxxx_length by fastforce
  with a show "Validator_key (code d) = Valid d"
    by (simp add: Validator_key_def Validator_key_in_def keyPattern_xxxx
        find_distinct_code[OF VALID_KEYS_distinct])
qed

text \<open>
  The three cases at concrete keys: a catalog code that is badly formed, a well-formed key
  outside the catalog, and a well-formed catalog code.
\<close>

theorem validateKey_cases_witness:
  "''PREMIUM-2025-ALPHA'' \<noteq> [] \<and> \<not> xxxx_format ''PREMIUM-2025-ALPHA''
   \<and> ''PREMIUM-2025-ALPHA'' \<in> code ` set VALID_KEYS
   \<and> Validator_key_in VALID_KEYS ''PREMIUM-2025-ALPHA''
        = Invalid ''Invalid key format (use: XXXX-XXXX-XXXX-XXXX)''
   \<and> xxxx_format ''ABCD-1234-ABCD-1234'' \<and> ''ABCD-1234-ABCD-1234'' \<notin> code ` set VALID_KEYS
   \<and> Validator_key ''ABCD-1234-ABCD-1234'' = Invalid ''Invalid or expired key''
   \<and> xxxx_format ''DEMO-1234-ABCD-5678''
   \<and> \<lparr>code = ''DEMO-1234-ABCD-5678'', duration = ''1day'', type = ''Trial''\<rparr> \<in> set VALID_KEYS
   \<and> Validator_key ''DEMO-1234-ABCD-5678''
        = Valid \<lparr>code = ''DEMO-1234-ABCD-5678'', duration = ''1day'', type = ''Trial''\<rparr>"
proof -
  have f: "\<not> xxxx_format ''PREMIUM-2025-ALPHA''" "xxxx_format ''ABCD-1234-ABCD-1234''"
    "xxxx_format ''DEMO-1234-ABCD-5678''"
    by (simp_all only: keyPattern_xxxx[symmetric] anchored_eval simp_thms)
  have m: "''PREMIUM-2025-ALPHA'' \<in> code ` set VALID_KEYS"
    "''ABCD-1234-ABCD-1234'' \<notin> code ` set VALID_KEYS"
    "\<lparr>code = ''DEMO-1234-ABCD-5678'', duration = ''1day'', type = ''Trial''\<rparr> \<in> set VALID_KEYS"
    by (simp_all add: VALID_KEYS_def)
  show ?thesis
    using f m validateKey_cases [of "''PREMIUM-2025-ALPHA''" VALID_KEYS "''ABCD-1234-ABCD-1234''"
        "\<lparr>code = ''DEMO-1234-ABCD-5678'', duration = ''1day'', type = ''Trial''\<rparr>"]
    by simp
qed

section \<open>Counting active keys\<close>

text \<open>
  C3, as amended. \<^verbatim>\<open>getActiveCount(user)\<close> counts the keys whose stored \<^verbatim>\<open>active\<close> flag is
  set; it takes no time and refreshes nothing. Applied to the user returned by
  \<^verbatim>\<open>updateKeyStatus\<close> at time \<open>now\<close>, it is the number of the user's keys that have no
  expiry date or whose expiry date is not before \<open>now\<close>, whatever the flags were.
\<close>

theorem activeCount_after_refresh:
  "getActiveCount u = length (filter active (keys u))
   \<and> getActiveCount (fst (updateKeyStatus u now s)) = length (filter (unexpired_at now) (keys u))"
proof
  show "getActiveCount u = length (filter active (keys u))"
    by (simp add: getActiveCount_def)
next
  have "filter (\<lambda>k. \<not> isExpired (expiryDate k) now) (keys u) = filter (unexpired_at now) (keys u)"
    by (rule filter_cong) (auto simp: isExpired_def unexpired_at_def split: option.splits)
  then show "getActiveCount (fst (updateKeyStatus u now s)) = length (filter (unexpired_at now) (keys u))"
    by (simp add: updateKeyStatus_eq refreshed_def getActiveCount_def filter_map o_def)
qed

text \<open>
  Without the refresh the count follows the stored flags: alice's account as registered at
  time \<open>0\<close> with a one-day key, read back two days later, counts one active key although
  none of her keys is unexpired then.
\<close>

theorem activeCount_stale_counterexample:
  "UserManager_get ''alice'' alice_storage = Some alice
   \<and> getActiveCount alice = 1
   \<and> length (filter (unexpired_at two_days) (keys alice)) = 0
   \<and> getActiveCount alice \<noteq> length (filter (unexpired_at two_days) (keys alice))"
  by (simp add: UserManager_get_def Storage_get_def alice_storage_def STORAGE_PREFIX_def
      getActiveCount_def alice_def unexpired_at_def two_days_def)

theorem activeCount_after_refresh_witness:
  "getActiveCount alice = 1
   \<and> getActiveCount (fst (updateKeyStatus alice two_days alice_storage)) = 0
   \<and> getActiveCount (fst (updateKeyStatus alice 0 alice_storage)) = 1"
  using activeCount_after_refresh [of alice two_days alice_storage]
    activeCount_after_refresh [of alice 0 alice_storage]
  by (simp add: alice_def unexpired_at_def two_days_def)

section \<open>Refreshing twice\<close>

text \<open>
  C7. A second \<^verbatim>\<open>updateKeyStatus\<close> at the same time, on the user and the storage that the
  first one returned, finds no flag to change: it returns the same user and the same
  storage, the count of \<^verbatim>\<open>Storage.set\<close> calls included, so it wrote nothing.
\<close>

theorem refreshStatus_idempotent:
  "updateKeyStatus u now s = (u1, s1) \<Longrightarrow>
     updateKeyStatus u1 now s1 = (u1, s1) \<and> snd (refreshKeys (keys u1) now False) = False"
proof -
  assume a: "updateKeyStatus u now s = (u1, s1)"
  then have u1: "u1 = refreshed now u"
    by (simp add: updateKeyStatus_eq)
  have "updateKeyStatus u1 now s1 = (u1, s1)"
    unfolding u1 updateKeyStatus_eq using refreshed_unchanged [of now u]
    by (simp add: refreshed_idem)
  moreover have "snd (refreshKeys (keys u1) now False) = False"
    unfolding u1 refreshKeys_eq using refreshed_unchanged [of now u] by simp
  ultimately show ?thesis by simp
qed

text \<open>
  Alice's one-day key, two days on: the first refresh clears the flag and writes (the second
  call of \<^verbatim>\<open>Storage.set\<close> on that storage), the second refresh changes nothing.
\<close>

theorem refreshStatus_idempotent_witness:
  "setCalls (snd (updateKeyStatus alice two_days alice_storage)) = 2
   \<and> map active (keys (fst (updateKeyStatus alice two_days alice_storage))) = [False]
   \<and> updateKeyStatus (fst (updateKeyStatus alice two_days alice_storage)) two_days
        (snd (updateKeyStatus alice two_days alice_storage))
      = updateKeyStatus alice two_days alice_storage"
  using refreshStatus_idempotent [of alice two_days alice_storage
      "fst (updateKeyStatus alice two_days alice_storage)"
      "snd (updateKeyStatus alice two_days alice_storage)"]
  by (simp add: updateKeyStatus_def alice_def two_days_def isExpired_def alice_storage_def
      UserManager_update_def Storage_set_def Let_def STORAGE_PREFIX_def)

section \<open>Creating an account and reading it back\<close>

text \<open>
  C8. \<^verbatim>\<open>UserManager.create\<close> returns \<^verbatim>\<open>true\<close> exactly when the storage accepts the write.
  When it does, \<^verbatim>\<open>UserManager.get\<close> of the same name returns an account with exactly one
  key, whose code, type and duration are those of the catalog entry, and whose \<^verbatim>\<open>isAdmin\<close>
  says whether the entry's type is \<^verbatim>\<open>'Admin'\<close>; its name and password are the ones given.
\<close>

theorem create_get_roundtrip:
  "fst (UserManager_create un pw kd now s) = (\<not> setItem_throws s)
   \<and> (fst (UserManager_create un pw kd now s) \<longrightarrow>
        (\<exists>a k. UserManager_get un (snd (UserManager_create un pw kd now s)) = Some a
          \<and> keys a = [k] \<and> code k = code kd \<and> type k = type kd \<and> duration k = duration kd
          \<and> isAdmin a = (type kd = ''Admin'') \<and> username a = un \<and> password a = pw))"
proof (intro conjI impI)
  show "fst (UserManager_create un pw kd now s) = (\<not> setItem_throws s)"
    by (simp add: UserManager_create_def Storage_set_ok)
next
  assume "fst (UserManager_create un pw kd now s)"
  then have "\<not> setItem_throws s"
    by (simp add: UserManager_create_def Storage_set_ok)
  then show "\<exists>a k. UserManager_get un (snd (UserManager_create un pw kd now s)) = Some a
          \<and> keys a = [k] \<and> code k = code kd \<and> type k = type kd \<and> duration k = duration kd
          \<and> isAdmin a = (type kd = ''Admin'') \<and> username a = un \<and> password a = pw"
    by (simp add: get_after_create userData_def Let_def)
qed

text \<open>
  Alice's account from the one-day catalog entry, and an account from the catalog entry of
  type \<^verbatim>\<open>'Admin'\<close>, which is an admin account.
\<close>

theorem create_get_roundtrip_witness:
  "UserManager_create ''alice'' ''secret1''
        \<lparr>code = ''DEMO-1234-ABCD-5678'', duration = ''1day'', type = ''Trial''\<rparr> 0 empty_storage
      = (True, alice_storage)
   \<and> UserManager_get ''alice'' alice_storage = Some alice
   \<and> isAdmin alice = (''Trial'' = ''Admin'')
   \<and> map code (keys alice) = [''DEMO-1234-ABCD-5678'']
   \<and> fst (UserManager_create ''root'' ''secret1''
        \<lparr>code = ''ADMIN-2025-MASTER-KEY'', duration = ''lifetime'', type = ''Admin''\<rparr> 0
        empty_storage)
   \<and> map isAdmin (Storage_getAllUsers (snd (UserManager_create ''root'' ''secret1''
        \<lparr>code = ''ADMIN-2025-MASTER-KEY'', duration = ''lifetime'', type = ''Admin''\<rparr> 0
        empty_storage))) = [True]"
proof -
  have c: "UserManager_create ''alice'' ''secret1''
        \<lparr>code = ''DEMO-1234-ABCD-5678'', duration = ''1day'', type = ''Trial''\<rparr> 0 empty_storage
      = (True, alice_storage)"
    by (simp add: UserManager_create_def userData_def Let_def expiry_1day isExpired_def
        Storage_set_def empty_storage_def alice_storage_def alice_def STORAGE_PREFIX_def)
  have r: "map isAdmin (Storage_getAllUsers (snd (UserManager_create ''root'' ''secret1''
        \<lparr>code = ''ADMIN-2025-MASTER-KEY'', duration = ''lifetime'', type = ''Admin''\<rparr> 0
        empty_storage))) = [True]"
    by (simp add: UserManager_create_def userData_def Let_def Storage_set_def empty_storage_def
        Storage_getAllUsers_def STORAGE_PREFIX_def)
  from create_get_roundtrip [of "''alice''" "''secret1''"
      "\<lparr>code = ''DEMO-1234-ABCD-5678'', duration = ''1day'', type = ''Trial''\<rparr>" 0 empty_storage]
    create_get_roundtrip [of "''root''" "''secret1''"
      "\<lparr>code = ''ADMIN-2025-MASTER-KEY'', duration = ''lifetime'', type = ''Admin''\<rparr>" 0
      empty_storage]
  show ?thesis using c r get_alice by (simp add: alice_def empty_storage_def)
qed

section \<open>Registration\<close>




section \<open>Lifetime keys\<close>

text \<open>
  C10. After \<^verbatim>\<open>updateKeyStatus\<close> every key of the user that has no expiry date is flagged
  active, whatever its flag was. The account that \<^verbatim>\<open>UserManager.create\<close> stores has that
  property. \<^verbatim>\<open>KeyManager.redeem\<close> keeps it: from a user that has it, the user after the call
  has it, and so has the storage when it had it before. Every operation of the engine
  (\<^verbatim>\<open>updateKeyStatus\<close>, \<^verbatim>\<open>register\<close>, \<^verbatim>\<open>login\<close>, \<^verbatim>\<open>getCurrentUser\<close>, \<^verbatim>\<open>changePassword\<close>,
  \<^verbatim>\<open>logout\<close>) keeps it of the storage, and the user that \<^verbatim>\<open>getCurrentUser\<close> returns has
  it: no operation clears the flag of a key without expiry date.
\<close>

theorem lifetime_keys_stay_active:
  "lifetime_active (fst (updateKeyStatus u now s))
   \<and> (\<not> setItem_throws sc \<longrightarrow>
        (\<exists>a. UserManager_get un (snd (UserManager_create un pw kd nc sc)) = Some a
            \<and> lifetime_active a))
   \<and> (lifetime_active ur \<longrightarrow>
        (\<exists>a. fst (snd (KeyManager_redeem k (Some ur) nr sr)) = Some a \<and> lifetime_active a)
        \<and> (lifetime_active_storage sr \<longrightarrow>
             lifetime_active_storage (snd (snd (KeyManager_redeem k (Some ur) nr sr)))))
   \<and> (lifetime_active_storage st \<longrightarrow>
        lifetime_active_storage (snd (updateKeyStatus ut nt st))
        \<and> lifetime_active_storage (snd (Auth_register a b c nt st))
        \<and> lifetime_active_storage (snd (Auth_login a b nt st))
        \<and> lifetime_active_storage (snd (Auth_getCurrentUser nt st))
        \<and> lifetime_active_storage (snd (Auth_changePassword a b c nt st))
        \<and> lifetime_active_storage (Auth_logout st))
   \<and> (fst (Auth_getCurrentUser ng sg) = Some ag \<longrightarrow> lifetime_active ag)"
proof (intro conjI)
  show "lifetime_active (fst (updateKeyStatus u now s))"
    by (simp add: updateKeyStatus_eq lifetime_active_refreshed)
  show "\<not> setItem_throws sc \<longrightarrow>
        (\<exists>a. UserManager_get un (snd (UserManager_create un pw kd nc sc)) = Some a
            \<and> lifetime_active a)"
    by (simp add: get_after_create lifetime_active_userData)
  show "lifetime_active ur \<longrightarrow>
        (\<exists>a. fst (snd (KeyManager_redeem k (Some ur) nr sr)) = Some a \<and> lifetime_active a)
        \<and> (lifetime_active_storage sr \<longrightarrow>
             lifetime_active_storage (snd (snd (KeyManager_redeem k (Some ur) nr sr))))"
    using lifetime_redeem_user [of ur k nr sr] lifetime_redeem_storage [of sr ur k nr]
    by (simp add: redeem_user)
  show "lifetime_active_storage st \<longrightarrow>
        lifetime_active_storage (snd (updateKeyStatus ut nt st))
        \<and> lifetime_active_storage (snd (Auth_register a b c nt st))
        \<and> lifetime_active_storage (snd (Auth_login a b nt st))
        \<and> lifetime_active_storage (snd (Auth_getCurrentUser nt st))
        \<and> lifetime_active_storage (snd (Auth_changePassword a b c nt st))
        \<and> lifetime_active_storage (Auth_logout st)"
    by (simp add: lifetime_updateKeyStatus lifetime_register lifetime_login
        lifetime_getCurrentUser lifetime_changePassword lifetime_logout)
  show "fst (Auth_getCurrentUser ng sg) = Some ag \<longrightarrow> lifetime_active ag"
    using getCurrentUser_lifetime by blast
qed

text \<open>
  Dave's lifetime key is flagged inactive; a refresh sets the flag. The account created from
  the lifetime catalog entry \<^verbatim>\<open>PREMIUM-2025-ALPHA\<close> holds an active key without expiry
  date, and redeeming a second key, logging in and resolving the session leave it active.
\<close>

theorem lifetime_keys_stay_active_witness:
  "\<not> lifetime_active dave
   \<and> fst (updateKeyStatus dave 5 dave_storage) = refreshed 0 dave
   \<and> map expiryDate (keys (refreshed 0 dave)) = [None]
   \<and> map active (keys (refreshed 0 dave)) = [True]
   \<and> lifetime_active (refreshed 0 dave)
   \<and> \<not> setItem_throws empty_storage
   \<and> UserManager_get ''dave'' (snd (UserManager_create ''dave'' ''secret1''
        \<lparr>code = ''PREMIUM-2025-ALPHA'', duration = ''lifetime'', type = ''Premium''\<rparr> 0
        empty_storage)) = Some (refreshed 0 dave)
   \<and> map active (keys (case fst (snd (KeyManager_redeem ''TEST-KEY1-2025-GAME''
        (Some (refreshed 0 dave)) 5 dave_storage)) of Some x \<Rightarrow> x | None \<Rightarrow> dave)) = [True, True]
   \<and> lifetime_active_storage dave_storage
   \<and> lifetime_active_storage (snd (snd (KeyManager_redeem ''TEST-KEY1-2025-GAME''
        (Some (refreshed 0 dave)) 5 dave_storage)))
   \<and> lifetime_active_storage (snd (Auth_login ''dave'' ''secret1'' 5 dave_storage))
   \<and> lifetime_active_storage (snd (Auth_getCurrentUser 6
        (snd (Auth_login ''dave'' ''secret1'' 5 dave_storage))))
   \<and> fst (Auth_getCurrentUser 6 (snd (Auth_login ''dave'' ''secret1'' 5 dave_storage)))
       = Some ((refreshed 0 dave)\<lparr>lastLogin := 5\<rparr>)
   \<and> lifetime_active ((refreshed 0 dave)\<lparr>lastLogin := 5\<rparr>)"
proof -
  have login: "snd (Auth_login ''dave'' ''secret1'' 5 dave_storage) =
      \<lparr>items = [(''user_dave'', JUser ((refreshed 0 dave)\<lparr>lastLogin := 5\<rparr>)),
                (''currentUser'', JString ''dave'')],
       setItem_throws = False, setCalls = 3\<rparr>"
    by (simp add: Auth_login_def get_dave updateKeyStatus_eq Let_def UserManager_update_def
        Storage_set_def CURRENT_USER_KEY_def STORAGE_PREFIX_def)
      (simp add: dave_def refreshed_def dave_storage_def isExpired_def)
  have cur: "fst (Auth_getCurrentUser 6 (snd (Auth_login ''dave'' ''secret1'' 5 dave_storage)))
       = Some ((refreshed 0 dave)\<lparr>lastLogin := 5\<rparr>)"
    unfolding login
    by (simp add: Auth_getCurrentUser_def Storage_get_def CURRENT_USER_KEY_def UserManager_get_def
        STORAGE_PREFIX_def updateKeyStatus_eq)
      (simp add: dave_def refreshed_def isExpired_def)
  have red: "map active (keys (case fst (snd (KeyManager_redeem ''TEST-KEY1-2025-GAME''
        (Some (refreshed 0 dave)) 5 dave_storage)) of Some x \<Rightarrow> x | None \<Rightarrow> dave)) = [True, True]"
    by (simp add: redeem_user key_TEST holds_code_def expiry_1week isExpired_def)
      (simp add: dave_def refreshed_def isExpired_def)
  from lifetime_keys_stay_active [where u = dave and now = 5 and s = dave_storage
      and sc = empty_storage and un = "''dave''" and pw = "''secret1''"
      and kd = "\<lparr>code = ''PREMIUM-2025-ALPHA'', duration = ''lifetime'', type = ''Premium''\<rparr>"
      and nc = 0 and ur = "refreshed 0 dave" and k = "''TEST-KEY1-2025-GAME''" and nr = 5
      and sr = dave_storage and st = dave_storage and a = "''dave''" and b = "''secret1''"
      and nt = 5 and ng = 6 and sg = "snd (Auth_login ''dave'' ''secret1'' 5 dave_storage)"
      and ag = "(refreshed 0 dave)\<lparr>lastLogin := 5\<rparr>"]
  have th: "lifetime_active_storage (snd (snd (KeyManager_redeem ''TEST-KEY1-2025-GAME''
        (Some (refreshed 0 dave)) 5 dave_storage)))
    \<and> lifetime_active_storage (snd (Auth_login ''dave'' ''secret1'' 5 dave_storage))
    \<and> lifetime_active ((refreshed 0 dave)\<lparr>lastLogin := 5\<rparr>)"
    using dave_facts cur by simp
  from lifetime_keys_stay_active [where st = "snd (Auth_login ''dave'' ''secret1'' 5 dave_storage)"
      and nt = 6] th
  have th2: "lifetime_active_storage (snd (Auth_getCurrentUser 6
        (snd (Auth_login ''dave'' ''secret1'' 5 dave_storage))))"
    by simp
  show ?thesis
    using th th2 cur red dave_facts create_dave get_dave
    by (simp add: updateKeyStatus_eq)
qed

section \<open>One key, two accounts\<close>

text \<open>
  C1, on the code: \<^verbatim>\<open>KeyManager.redeem\<close> looks for the code in the keys of the redeeming
  user only. Alice registers with the key \<^verbatim>\<open>DEMO-1234-ABCD-5678\<close>, bob registers with
  another key and logs in; an account of the storage then holds alice's key, and bob's
  redemption of it succeeds, after which the accounts of alice and of bob both hold it.
\<close>

theorem redeem_ignores_other_accounts:
  "Auth_register ''alice'' ''secret1'' ''DEMO-1234-ABCD-5678'' 0 empty_storage
     = (Success ''Account created successfully!'', alice_storage)
   \<and> Auth_register ''bob'' ''secret1'' ''TEST-KEY1-2025-GAME'' 1 alice_storage
     = (Success ''Account created successfully!'', bob_storage)
   \<and> Auth_login ''bob'' ''secret1'' 2 bob_storage = (Redirect ''dashboard.html'', bob_session)
   \<and> Auth_getCurrentUser 3 bob_session = (Some bob, bob_session)
   \<and> list_ex (holds_code ''DEMO-1234-ABCD-5678'') (Storage_getAllUsers bob_session)
   \<and> unique_codes bob_session
   \<and> fst bob_redeems = Success ''Key activated successfully!''
   \<and> map username (filter (holds_code ''DEMO-1234-ABCD-5678'')
        (Storage_getAllUsers (snd (snd bob_redeems)))) = [''alice'', ''bob'']
   \<and> \<not> unique_codes (snd (snd bob_redeems))"
proof -
  have c2: "Auth_register ''bob'' ''secret1'' ''TEST-KEY1-2025-GAME'' 1 alice_storage
     = (Success ''Account created successfully!'', bob_storage)"
    by (simp add: bob_storage_eq bob_storage_items)
  have c3: "Auth_login ''bob'' ''secret1'' 2 bob_storage = (Redirect ''dashboard.html'', bob_session)"
    by (simp add: bob_login bob_session_eq)
  have c4: "list_ex (holds_code ''DEMO-1234-ABCD-5678'') (Storage_getAllUsers bob_session)"
    by (simp add: bob_session_eq Storage_getAllUsers_def STORAGE_PREFIX_def holders)
  have c5: "fst bob_redeems = Success ''Key activated successfully!''"
    by (simp add: bob_redeems_eq)
  have c6: "map username (filter (holds_code ''DEMO-1234-ABCD-5678'')
        (Storage_getAllUsers (snd (snd bob_redeems)))) = [''alice'', ''bob'']"
    unfolding bob_redeems_eq by (simp add: Storage_getAllUsers_def STORAGE_PREFIX_def holders)
  show ?thesis
    by (intro conjI register_alice c2 c3 bob_current c4 unique_concrete(3) c5 c6
        unique_concrete(4))
qed

section \<open>The admin key\<close>

text \<open>
  C2, on the code: the catalog lists \<^verbatim>\<open>ADMIN-2025-MASTER-KEY\<close> with type \<^verbatim>\<open>'Admin'\<close>, and
  \<^verbatim>\<open>Validator.key\<close> rejects it as badly formed (its groups have 5, 4, 6 and 3 characters),
  so that \<^verbatim>\<open>register("bob", "secret1", "ADMIN-2025-MASTER-KEY")\<close> fails on every storage
  and at every time, and leaves the storage as it was.
\<close>

theorem admin_key_rejected:
  "\<lparr>code = ''ADMIN-2025-MASTER-KEY'', duration = ''lifetime'', type = ''Admin''\<rparr> \<in> set VALID_KEYS
   \<and> Validator_key ''ADMIN-2025-MASTER-KEY''
       = Invalid ''Invalid key format (use: XXXX-XXXX-XXXX-XXXX)''
   \<and> Auth_register ''bob'' ''secret1'' ''ADMIN-2025-MASTER-KEY'' now s
       = (Failure ''Invalid key format (use: XXXX-XXXX-XXXX-XXXX)'', s)"
  by (simp add: VALID_KEYS_def witness_validators
      register_key_invalid [OF username_bob password_secret1 witness_validators(6)])

section \<open>Writes that fail\<close>

text \<open>
  C4, on the code: on a storage whose \<^verbatim>\<open>setItem\<close> throws, \<^verbatim>\<open>KeyManager.redeem\<close>,
  \<^verbatim>\<open>Auth.login\<close> and \<^verbatim>\<open>Auth.changePassword\<close> report success although nothing was stored;
  only \<^verbatim>\<open>Auth.register\<close> looks at the result of the write and reports the failure.
\<close>

theorem failed_write_reported_as_success:
  "setItem_throws full_storage \<and> setItem_throws full_session
   \<and> fst (KeyManager_redeem ''TEST-KEY1-2025-GAME'' (Some alice) 1 full_storage)
       = Success ''Key activated successfully!''
   \<and> items (snd (snd (KeyManager_redeem ''TEST-KEY1-2025-GAME'' (Some alice) 1 full_storage)))
       = items full_storage
   \<and> fst (Auth_login ''alice'' ''secret1'' 1 full_storage) = Redirect ''dashboard.html''
   \<and> items (snd (Auth_login ''alice'' ''secret1'' 1 full_storage)) = items full_storage
   \<and> fst (Auth_changePassword ''secret1'' ''newsecret'' ''newsecret'' 1 full_session)
       = Success ''Password changed successfully''
   \<and> items (snd (Auth_changePassword ''secret1'' ''newsecret'' ''newsecret'' 1 full_session))
       = items full_session
   \<and> fst (Auth_register ''carol'' ''pw12345'' ''TEST-KEY1-2025-GAME'' 1 full_storage)
       = Failure ''Failed to create account''"
proof -
  have 1: "fst (KeyManager_redeem ''TEST-KEY1-2025-GAME'' (Some alice) 1 full_storage)
       = Success ''Key activated successfully!''"
    by (simp add: KeyManager_redeem_def key_TEST full_facts Let_def)
  have 2: "fst (Auth_login ''alice'' ''secret1'' 1 full_storage) = Redirect ''dashboard.html''"
    by (simp add: Auth_login_def full_facts Let_def split_beta updateKeyStatus_eq refreshed_def
        alice_def)
  have c: "fst (Auth_getCurrentUser 1 full_session) = Some alice"
    by (simp add: Auth_getCurrentUser_def full_facts split_beta updateKeyStatus_eq
        refreshed_def alice_def isExpired_def)
  have v: "Validator_password ''newsecret'' = Valid ()"
    by (simp add: validator_defs)
  have 3: "fst (Auth_changePassword ''secret1'' ''newsecret'' ''newsecret'' 1 full_session)
       = Success ''Password changed successfully''"
    using c by (cases "Auth_getCurrentUser 1 full_session")
      (simp add: Auth_changePassword_def full_facts v Let_def)
  have 4: "fst (Auth_register ''carol'' ''pw12345'' ''TEST-KEY1-2025-GAME'' 1 full_storage)
       = Failure ''Failed to create account''"
    by (simp add: register_creates [OF witness_validators(2) witness_validators(4) key_TEST
          full_facts(6) full_facts(7)] UserManager_create_def Storage_set_ok full_facts)
  show ?thesis
    by (intro conjI full_facts(1) full_facts(2) 1 2 3 4 throws_redeem throws_login
        throws_changePassword)
qed

text \<open>
  What holds of a write that fails: when \<^verbatim>\<open>setItem\<close> throws, no operation of the engine
  changes the entries of the storage, and \<^verbatim>\<open>Auth.register\<close> does not report success.
\<close>

theorem failed_write_leaves_items:
  "setItem_throws s \<Longrightarrow>
     items (snd (updateKeyStatus x now s)) = items s
     \<and> items (snd (Auth_register u p k now s)) = items s
     \<and> \<not> success (fst (Auth_register u p k now s))
     \<and> items (snd (Auth_login u p now s)) = items s
     \<and> items (snd (Auth_getCurrentUser now s)) = items s
     \<and> items (snd (Auth_changePassword c n f now s)) = items s
     \<and> items (snd (snd (KeyManager_redeem k usr now s))) = items s"
  by (simp add: throws_updateKeyStatus throws_register throws_register_fails throws_login
      throws_getCurrentUser throws_changePassword throws_redeem)

theorem failed_write_leaves_items_witness:
  "setItem_throws full_storage
   \<and> items (snd (Auth_login ''alice'' ''secret1'' 1 full_storage)) = [(''user_alice'', JUser alice)]
   \<and> \<not> success (fst (Auth_register ''carol'' ''pw12345'' ''TEST-KEY1-2025-GAME'' 1 full_storage))"
  using failed_write_leaves_items [OF full_facts(1), of _ 1 "''carol''" "''pw12345''"
      "''TEST-KEY1-2025-GAME''"]
    failed_write_leaves_items [OF full_facts(1), of _ 1 "''alice''" "''secret1''"]
    full_facts(1)
  by (simp add: full_storage_def)

section \<open>Registrations alone\<close>

text \<open>
  Registration keeps the codes apart: from a storage in which no code occurs twice among
  the keys of the accounts, every sequence of registrations leads to such a storage.
\<close>

theorem registrations_keep_codes_unique:
  "unique_codes s \<Longrightarrow> unique_codes (registrations rs s)"
  by (induction rs s rule: registrations.induct) (simp_all add: unique_register)

text \<open>
  Alice, then bob with another key, then carol with the key of alice: carol is refused, and
  the storage is the one after bob's registration.
\<close>

theorem registrations_keep_codes_unique_witness:
  "unique_codes empty_storage
   \<and> registrations [(''alice'', ''secret1'', ''DEMO-1234-ABCD-5678'', 0),
        (''bob'', ''secret1'', ''TEST-KEY1-2025-GAME'', 1),
        (''carol'', ''pw12345'', ''DEMO-1234-ABCD-5678'', 2)] empty_storage = bob_storage
   \<and> unique_codes bob_storage"
  using registrations_keep_codes_unique [OF unique_concrete(1),
      of "[(''alice'', ''secret1'', ''DEMO-1234-ABCD-5678'', 0),
         (''bob'', ''secret1'', ''TEST-KEY1-2025-GAME'', 1),
         (''carol'', ''pw12345'', ''DEMO-1234-ABCD-5678'', 2)]"]
  by (simp add: unique_concrete(1) register_alice bob_storage_def [symmetric] register_carol)

section \<open>Redemption and the admin flag\<close>

text \<open>
  \<^verbatim>\<open>KeyManager.redeem\<close> changes the keys of the user only: \<^verbatim>\<open>isAdmin\<close>, the name and the
  password stay as they were, whatever the type of the redeemed key.
\<close>

theorem redeem_keeps_isAdmin:
  "fst (snd (KeyManager_redeem k (Some u) now s)) = Some u' \<Longrightarrow>
     isAdmin u' = isAdmin u \<and> username u' = username u \<and> password u' = password u"
  by (auto simp: redeem_user split: validation.splits if_splits)

theorem redeem_keeps_isAdmin_witness:
  "fst (snd (KeyManager_redeem ''DEMO-1234-ABCD-5678'' (Some bob) 4 bob_session))
     = Some bob_with_alice_key
   \<and> keys bob_with_alice_key \<noteq> keys bob
   \<and> isAdmin bob_with_alice_key = isAdmin bob"
proof -
  have r: "fst (snd (KeyManager_redeem ''DEMO-1234-ABCD-5678'' (Some bob) 4 bob_session))
     = Some bob_with_alice_key"
    using bob_redeems_eq by (simp add: bob_redeems_def bob_current)
  from redeem_keeps_isAdmin [OF r] r show ?thesis
    by (simp add: bob_with_alice_key_def)
qed

section \<open>The shape of the storage\<close>

text \<open>
  Every operation of the engine keeps the storage in the shape the readers expect: user
  objects under the keys that start with \<^verbatim>\<open>'user_'\<close>, a string under \<^verbatim>\<open>'currentUser'\<close>.
  In such a storage no string is found under the key of a user and no user object under
  \<^verbatim>\<open>'currentUser'\<close>, and \<^verbatim>\<open>UserManager.exists\<close> says whether \<^verbatim>\<open>UserManager.get\<close> finds
  the user.
\<close>

theorem storage_well_formed:
  "wf_storage s \<longrightarrow>
     wf_storage (snd (updateKeyStatus x now s))
     \<and> wf_storage (snd (Auth_register u p k now s))
     \<and> wf_storage (snd (Auth_login u p now s))
     \<and> wf_storage (snd (Auth_getCurrentUser now s))
     \<and> wf_storage (snd (Auth_changePassword c n f now s))
     \<and> wf_storage (Auth_logout s)
     \<and> wf_storage (snd (snd (KeyManager_redeem k usr now s)))
     \<and> Storage_get (STORAGE_PREFIX @ u) s \<noteq> Some (JString y)
     \<and> Storage_get CURRENT_USER_KEY s \<noteq> Some (JUser z)
     \<and> UserManager_exists u s = (UserManager_get u s \<noteq> None)"
proof
  assume a: "wf_storage s"
  have "UserManager_exists u s = (UserManager_get u s \<noteq> None)"
    using wf_user_lookup [OF a, of u]
    by (auto simp: UserManager_exists_def UserManager_get_def split: option.splits json.splits)
  with a show "wf_storage (snd (updateKeyStatus x now s))
     \<and> wf_storage (snd (Auth_register u p k now s))
     \<and> wf_storage (snd (Auth_login u p now s))
     \<and> wf_storage (snd (Auth_getCurrentUser now s))
     \<and> wf_storage (snd (Auth_changePassword c n f now s))
     \<and> wf_storage (Auth_logout s)
     \<and> wf_storage (snd (snd (KeyManager_redeem k usr now s)))
     \<and> Storage_get (STORAGE_PREFIX @ u) s \<noteq> Some (JString y)
     \<and> Storage_get CURRENT_USER_KEY s \<noteq> Some (JUser z)
     \<and> UserManager_exists u s = (UserManager_get u s \<noteq> None)"
    by (simp add: wf_updateKeyStatus wf_register wf_login wf_getCurrentUser wf_changePassword
        wf_logout wf_redeem wf_user_lookup wf_current_lookup)
qed

theorem storage_well_formed_witness:
  "wf_storage empty_storage
   \<and> wf_storage (snd (Auth_register ''alice'' ''secret1'' ''DEMO-1234-ABCD-5678'' 0 empty_storage))
   \<and> wf_storage bob_session
   \<and> wf_storage (snd (snd bob_redeems))"
proof -
  have e: "wf_storage empty_storage" by (simp add: wf_storage_def empty_storage_def)
  have b: "wf_storage bob_session"
    by (simp add: wf_storage_def bob_session_eq STORAGE_PREFIX_def CURRENT_USER_KEY_def)
  from storage_well_formed [of empty_storage _ 0 "''alice''" "''secret1''" "''DEMO-1234-ABCD-5678''"]
    storage_well_formed [of bob_session _ 4 _ _ "''DEMO-1234-ABCD-5678''" _ _ _ "Some bob"]
  show ?thesis using e b by (simp add: bob_redeems_def bob_current)
qed

end
